theory Spec2Isabelle
  imports Main "HOL-Library.Word" "HOL-Library.Extended_Nat"
begin

unbundle bit_operations_syntax

section \<open>Values shared by the models\<close>

text \<open>
  JavaScript values as far as the sources inspect them: \<open>undefined\<close> and \<open>null\<close> are what
  the operators \<open>??\<close> and \<open>== null\<close> test for; everything else is passed around opaquely.
  An object is the list of its own properties; \<open>JSObject []\<close> is the literal \<open>{}\<close>.
\<close>

datatype js_value =
    JSUndefined
  | JSNull
  | JSBoolean bool
  | JSNumber int
  | JSString string
  | JSObject "(string \<times> js_value) list"

text \<open>The nullish-coalescing operator \<open>a ?? b\<close>.\<close>

definition nullish :: "js_value \<Rightarrow> bool" where
  "nullish v = (v = JSUndefined \<or> v = JSNull)"

definition coalesce :: "js_value \<Rightarrow> js_value \<Rightarrow> js_value" where
  "coalesce a b = (if nullish a then b else a)"

section \<open>util: validation keywords and RPC error classes\<close>

subsection \<open>translateErrorToOCPPCode\<close>

text \<open>
  The \<open>switch\<close> of \<open>translateErrorToOCPPCode\<close>: the case labels are tried in order, and the
  \<open>default\<close> label (written first in the source, falling through to the first group) is taken
  when no label is equal to the keyword.
\<close>

definition translateErrorToOCPPCode :: "string \<Rightarrow> string" where
  "translateErrorToOCPPCode keyword =
     (if keyword \<in> set [''maximum'', ''minimum'', ''maxLength'', ''minLength'']
        then ''FormatViolation''
      else if keyword \<in> set [''exclusiveMaximum'', ''exclusiveMinimum'', ''multipleOf'',
                ''maxItems'', ''minItems'', ''maxProperties'', ''minProperties'',
                ''additionalItems'', ''required'']
        then ''OccurenceConstraintViolation''
      else if keyword \<in> set [''pattern'', ''propertyNames'', ''additionalProperties'']
        then ''PropertyConstraintViolation''
      else if keyword = ''type''
        then ''TypeConstraintViolation''
      else ''FormatViolation'')"

text \<open>The seventeen keywords that the table of the specification names.\<close>

definition table_keywords :: "string list" where
  "table_keywords =
     [''maximum'', ''minimum'', ''maxLength'', ''minLength'',
      ''exclusiveMaximum'', ''exclusiveMinimum'', ''multipleOf'', ''maxItems'', ''minItems'',
      ''maxProperties'', ''minProperties'', ''additionalItems'', ''required'',
      ''pattern'', ''propertyNames'', ''additionalProperties'', ''type'']"

subsection \<open>rpcErrorLUT and createRPCError\<close>

text \<open>
  The fourteen names under which \<open>util\<close> imports error classes from \<open>./errors\<close>. The module
  itself is not among the sources: a constructor below stands for the import of that name,
  and nothing is said about whether two imports denote one class.
\<close>

datatype rpc_error_class =
    RPCGenericError
  | RPCNotImplementedError
  | RPCNotSupportedError
  | RPCInternalError
  | RPCProtocolError
  | RPCSecurityError
  | RPCFormationViolationError
  | RPCFormatViolationError
  | RPCPropertyConstraintViolationError
  | RPCOccurenceConstraintViolationError
  | RPCOccurrenceConstraintViolationError
  | RPCTypeConstraintViolationError
  | RPCMessageTypeNotSupportedError
  | RPCFrameworkError

text \<open>The own properties of the object literal \<open>rpcErrorLUT\<close>, in source order.\<close>

definition rpcErrorLUT :: "(string \<times> rpc_error_class) list" where
  "rpcErrorLUT =
     [(''GenericError'', RPCGenericError),
      (''NotImplemented'', RPCNotImplementedError),
      (''NotSupported'', RPCNotSupportedError),
      (''InternalError'', RPCInternalError),
      (''ProtocolError'', RPCProtocolError),
      (''SecurityError'', RPCSecurityError),
      (''FormationViolation'', RPCFormationViolationError),
      (''FormatViolation'', RPCFormatViolationError),
      (''PropertyConstraintViolation'', RPCPropertyConstraintViolationError),
      (''OccurenceConstraintViolation'', RPCOccurenceConstraintViolationError),
      (''OccurrenceConstraintViolation'', RPCOccurrenceConstraintViolationError),
      (''TypeConstraintViolation'', RPCTypeConstraintViolationError),
      (''MessageTypeNotSupported'', RPCMessageTypeNotSupportedError),
      (''RpcFrameworkError'', RPCFrameworkError)]"

text \<open>
  \<open>rpcErrorLUT\<close> is an ordinary object literal, so \<open>rpcErrorLUT[type]\<close> also finds the
  properties that every object inherits from \<open>Object.prototype\<close>. These are the standard
  ones of ECMAScript; \<open>constructor\<close> is the function \<open>Object\<close>, \<open>__proto__\<close> is the prototype
  object itself, and the others are built-in methods, which are not constructors.
\<close>

definition Object_prototype_keys :: "string list" where
  "Object_prototype_keys =
     [''constructor'', ''__proto__'', ''hasOwnProperty'', ''isPrototypeOf'',
      ''propertyIsEnumerable'', ''toString'', ''toLocaleString'', ''valueOf'',
      ''__defineGetter__'', ''__defineSetter__'', ''__lookupGetter__'', ''__lookupSetter__'']"

datatype lut_value =
    ErrorClass rpc_error_class
  | Inherited string

text \<open>The property read \<open>rpcErrorLUT[type]\<close>; \<open>None\<close> is \<open>undefined\<close>.\<close>

definition rpcErrorLUT_get :: "string \<Rightarrow> lut_value option" where
  "rpcErrorLUT_get type =
     (case map_of rpcErrorLUT type of
        Some c \<Rightarrow> Some (ErrorClass c)
      | None \<Rightarrow> if type \<in> set Object_prototype_keys then Some (Inherited type) else None)"

text \<open>
  What \<open>createRPCError\<close> returns: an instance of one of the error classes, carrying its
  message and details, or (for \<open>new Object(message)\<close>) a boxed string with a \<open>details\<close> property.
  \<open>new E(...)\<close> on a value that is not a constructor throws a \<open>TypeError\<close>.
\<close>

datatype created_error =
    RPCErrorInstance rpc_error_class string js_value
  | BoxedString string js_value

datatype js_error =
    Error string
  | TypeError string
  | RangeError string
  | WebsocketUpgradeError nat string

definition createRPCError ::
  "string \<Rightarrow> string option \<Rightarrow> js_value \<Rightarrow> js_error + created_error" where
  "createRPCError type message details =
     (let E = (case rpcErrorLUT_get type of None \<Rightarrow> ErrorClass RPCGenericError | Some v \<Rightarrow> v);
          msg = (case message of None \<Rightarrow> '''' | Some m \<Rightarrow> m);
          det = coalesce details (JSObject [])
      in case E of
           ErrorClass c \<Rightarrow> Inr (RPCErrorInstance c msg det)
         | Inherited k \<Rightarrow>
             if k = ''constructor'' then Inr (BoxedString msg det)
             else Inl (TypeError ''E is not a constructor''))"

text \<open>The class of the error that \<open>createRPCError\<close> builds for a code, if it builds one.\<close>

definition created_class :: "string \<Rightarrow> rpc_error_class option" where
  "created_class type =
     (case createRPCError type None JSUndefined of
        Inr (RPCErrorInstance c _ _) \<Rightarrow> Some c
      | _ \<Rightarrow> None)"

section \<open>Buffers, base64 and the Basic authorization header\<close>

text \<open>
  A \<open>Buffer\<close> is a list of bytes. A string is the list of the bytes of its UTF-8 form, so
  \<open>Buffer.from(s)\<close> (which encodes in UTF-8) keeps the bytes as they are. A header value and a
  base64 text consist of ASCII characters, one byte each.
\<close>

type_synonym byte = "8 word"
type_synonym buffer = "byte list"

definition Buffer_from :: "string \<Rightarrow> buffer" where
  "Buffer_from s = map of_char s"


subsection \<open>Node's base64 codec\<close>

text \<open>
  \<open>buf.toString('base64')\<close>: three bytes give four characters of the standard alphabet; a
  rest of one or two bytes is padded with \<open>=\<close>. The table is only read at indices below 64.
\<close>

definition base64_table :: string where
  "base64_table = ''ABCDEFGHIJKLMNOPQRSTUVWXYZabcdefghijklmnopqrstuvwxyz0123456789+/''"

definition enc6 :: "byte \<Rightarrow> char" where
  "enc6 v = base64_table ! unat v"

fun base64_encode :: "buffer \<Rightarrow> string" where
  "base64_encode (a # b # c # rest) =
     enc6 (drop_bit 2 a)
     # enc6 (push_bit 4 (a AND 0x03) OR drop_bit 4 b)
     # enc6 (push_bit 2 (b AND 0x0F) OR drop_bit 6 c)
     # enc6 (c AND 0x3F)
     # base64_encode rest"
| "base64_encode [a, b] =
     [enc6 (drop_bit 2 a),
      enc6 (push_bit 4 (a AND 0x03) OR drop_bit 4 b),
      enc6 (push_bit 2 (b AND 0x0F)),
      CHR ''='']"
| "base64_encode [a] =
     [enc6 (drop_bit 2 a), enc6 (push_bit 4 (a AND 0x03)), CHR ''='', CHR ''='']"
| "base64_encode [] = []"




subsection \<open>buf.compare(target, targetStart, targetEnd)\<close>



subsection \<open>server: parsing the Authorization header\<close>







subsection \<open>client: building the Authorization header\<close>

text \<open>The option \<open>password\<close> is a \<open>Buffer\<close> or a string; a string is encoded in UTF-8.\<close>

datatype client_password =
    PasswordBuffer buffer
  | PasswordString string

text \<open>
  The header that \<open>_beginConnect\<close> adds when \<open>password != null\<close>:
  \<open>'Basic ' + Buffer.concat([usernameBuffer, passwordBuffer]).toString('base64')\<close>.
\<close>

definition authorization_header :: "string \<Rightarrow> client_password option \<Rightarrow> string option" where
  "authorization_header identity password =
     (case password of
        None \<Rightarrow> None
      | Some p \<Rightarrow>
          (let usernameBuffer = Buffer_from (identity @ '':'');
               passwordBuffer = (case p of PasswordString s \<Rightarrow> Buffer_from s
                                         | PasswordBuffer b \<Rightarrow> b)
           in Some (''Basic '' @ base64_encode (usernameBuffer @ passwordBuffer))))"

subsection \<open>The entries of the base64 table\<close>



section \<open>server: the upgrade handshake\<close>

datatype StateEnum = CONNECTING | OPEN | CLOSING | CLOSED

subsection \<open>The request and the handshake record\<close>

text \<open>
  What \<open>handleUpgrade\<close> and \<open>_onConnection\<close> read of the request: \<open>request.url\<close>, the path
  and the query of \<open>new URL(request.url ?? '/', 'http://localhost')\<close>, three headers (\<open>None\<close>
  when the header is absent) and the remote address of the socket (\<open>None\<close> when undefined).
\<close>

record upgrade_request =
  rq_url :: string
  rq_pathname :: string
  rq_search :: string
  rq_upgrade :: "string option"
  rq_authorization :: "string option"
  rq_sec_websocket_protocol :: "string option"
  rq_remoteAddress :: "string option"

text \<open>\<open>RPCServerClientHandshake\<close>; the fields \<open>headers\<close> and \<open>request\<close> are the request itself.\<close>

record handshake =
  hs_remoteAddress :: string
  hs_protocols :: "string list"
  hs_endpoint :: string
  hs_identity :: string
  hs_query :: string
  hs_password :: "buffer option"
  hs_request :: upgrade_request








subsection \<open>accept, reject and abortUpgrade\<close>

text \<open>What \<open>accept\<close> caches in \<open>_pendingUpgrades\<close> for the request.\<close>

record pending_upgrade =
  pu_session :: js_value
  pu_protocol :: "string option"
  pu_handshake :: handshake

text \<open>
  The state of one call of \<open>handleUpgrade\<close>: the variable \<open>resolved\<close>, whether the abort signal
  has fired, and what the handshake has done so far: the calls of \<open>abortHandshake\<close> (status
  code and message, \<open>None\<close> when no message is passed), the \<open>upgradeAborted\<close> events emitted, the
  entry of \<open>_pendingUpgrades\<close> for the request, and the number of calls of
  \<open>this._wss.handleUpgrade\<close>, which promote the connection.
\<close>

record upgrade_state =
  us_resolved :: bool
  us_signal_aborted :: bool
  us_abortHandshake :: "(nat \<times> string option) list"
  us_upgradeAborted :: "js_error list"
  us_pending :: "pending_upgrade option"
  us_promotions :: nat

definition upgrade_start :: upgrade_state where
  "upgrade_start =
     \<lparr> us_resolved = False, us_signal_aborted = False, us_abortHandshake = [],
       us_upgradeAborted = [], us_pending = None, us_promotions = 0 \<rparr>"

definition abortUpgrade :: "js_error \<Rightarrow> upgrade_state \<Rightarrow> upgrade_state" where
  "abortUpgrade error s =
     (let s1 = s\<lparr> us_resolved := True \<rparr>;
          s2 = (case error of
                  WebsocketUpgradeError code message \<Rightarrow>
                    s1\<lparr> us_abortHandshake := us_abortHandshake s1 @ [(code, Some message)] \<rparr>
                | _ \<Rightarrow> s1\<lparr> us_abortHandshake := us_abortHandshake s1 @ [(500, None)] \<rparr>)
      in if \<not> us_signal_aborted s2
         then s2\<lparr> us_signal_aborted := True,
                  us_upgradeAborted := us_upgradeAborted s2 @ [error] \<rparr>
         else s2)"

text \<open>
  \<open>accept(session, protocol)\<close>. \<open>server_protocols\<close> is \<open>this._options.protocols\<close>; a protocol
  argument of \<open>None\<close> is \<open>undefined\<close> or \<open>null\<close>. \<open>readyState\<close> is the socket's state at the time
  of the call.
\<close>

definition accept ::
  "string list option \<Rightarrow> handshake \<Rightarrow> string \<Rightarrow> js_value \<Rightarrow> string option
     \<Rightarrow> upgrade_state \<Rightarrow> upgrade_state" where
  "accept server_protocols hs readyState session protocol s =
     (if us_resolved s then s
      else
        (let s1 = s\<lparr> us_resolved := True \<rparr> in
         if readyState \<noteq> ''open''
           then abortUpgrade (WebsocketUpgradeError 400
                  (''Client readyState = '' @ [CHR 0x27] @ readyState @ [CHR 0x27])) s1
         else
           (case (case protocol of
                    None \<Rightarrow>
                      Inr (List.find (\<lambda>p. p \<in> set (hs_protocols hs))
                             (case server_protocols of Some ps \<Rightarrow> ps | None \<Rightarrow> []))
                  | Some p \<Rightarrow>
                      if p \<notin> set (hs_protocols hs)
                      then Inl (WebsocketUpgradeError 400
                                  (''Client doesn'' @ [CHR 0x27] @ ''t support expected subprotocol''))
                      else Inr (Some p)) of
              Inl err \<Rightarrow> abortUpgrade err s1
            | Inr selected \<Rightarrow>
                s1\<lparr> us_pending :=
                       Some \<lparr> pu_session = coalesce session (JSObject []),
                              pu_protocol = selected,
                              pu_handshake = hs \<rparr>,
                     us_promotions := us_promotions s1 + 1 \<rparr>)))"

text \<open>\<open>reject(code = 404, message = 'Not found')\<close>; \<open>None\<close> is an argument left out.\<close>

definition reject :: "nat option \<Rightarrow> string option \<Rightarrow> upgrade_state \<Rightarrow> upgrade_state" where
  "reject code message s =
     (if us_resolved s then s
      else abortUpgrade
             (WebsocketUpgradeError (case code of Some c \<Rightarrow> c | None \<Rightarrow> 404)
                (case message of Some m \<Rightarrow> m | None \<Rightarrow> ''Not found''))
             (s\<lparr> us_resolved := True \<rparr>))"

text \<open>
  What can happen to a handshake once its record is built: the application calls \<open>accept\<close>
  or \<open>reject\<close>, the socket emits \<open>end\<close>, \<open>close\<close> or \<open>error\<close>, or the authorization callback
  throws (the \<open>catch\<close> at the end of \<open>handleUpgrade\<close>).
\<close>

datatype upgrade_event =
    Accept string js_value "string option"
  | Reject "nat option" "string option"
  | SocketEnd
  | SocketClose
  | SocketError js_error
  | CallbackThrows js_error

fun upgrade_step ::
  "string list option \<Rightarrow> handshake \<Rightarrow> upgrade_event \<Rightarrow> upgrade_state \<Rightarrow> upgrade_state" where
  "upgrade_step sp hs (Accept readyState session protocol) s =
     accept sp hs readyState session protocol s"
| "upgrade_step sp hs (Reject code message) s = reject code message s"
| "upgrade_step sp hs SocketEnd s =
     reject (Some 400) (Some ''Client connection closed before upgrade complete'') s"
| "upgrade_step sp hs SocketClose s =
     reject (Some 400) (Some ''Client connection closed before upgrade complete'') s"
| "upgrade_step sp hs (SocketError err) s = abortUpgrade err s"
| "upgrade_step sp hs (CallbackThrows err) s = abortUpgrade err s"

fun upgrade_run ::
  "string list option \<Rightarrow> handshake \<Rightarrow> upgrade_event list \<Rightarrow> upgrade_state \<Rightarrow> upgrade_state" where
  "upgrade_run sp hs [] s = s"
| "upgrade_run sp hs (e # es) s = upgrade_run sp hs es (upgrade_step sp hs e s)"

text \<open>The events that go through \<open>accept\<close> or \<open>reject\<close>.\<close>

fun is_resolution :: "upgrade_event \<Rightarrow> bool" where
  "is_resolution (SocketError err) = False"
| "is_resolution (CallbackThrows err) = False"
| "is_resolution e = True"

subsection \<open>Promotion: handleProtocols, _onConnection and RPCServerClient\<close>



text \<open>
  \<open>RPCBaseClientOptions\<close>, as far as the sources of the server and of the client read them;
  an optional field that is left out is \<open>None\<close>. The remaining options (timeouts, headers,
  validators and so on) are handed on unchanged and are not modelled.
\<close>

record base_client_options =
  opt_identity :: string
  opt_endpoint :: string
  opt_query :: "string option"
  opt_password :: "client_password option"
  opt_protocols :: "string list option"
  opt_reconnect :: bool

text \<open>
  The fields of \<open>RPCBaseClient\<close> that the constructor of \<open>RPCServerClient\<close> assigns, and the two
  fields that \<open>RPCServerClient\<close> adds.
\<close>

record server_client =
  sc_options :: base_client_options
  sc_state :: StateEnum
  sc_identity :: string
  sc_protocol :: string
  sc_session :: js_value
  sc_handshake :: handshake

text \<open>
  The constructor of \<open>RPCServerClient\<close>. The constructor of the base class (\<open>super(options)\<close>)
  and \<open>_attachWebsocket\<close> belong to \<open>RPCBaseClient\<close>; they are parameters: \<open>base_options\<close> is the
  value that \<open>super\<close> leaves in \<open>_options\<close>, and \<open>attachWebsocket\<close> is what the call does to the
  object.
\<close>

definition RPCServerClient_new ::
  "(base_client_options \<Rightarrow> base_client_options) \<Rightarrow> (server_client \<Rightarrow> server_client)
     \<Rightarrow> base_client_options \<Rightarrow> string \<Rightarrow> handshake \<Rightarrow> js_value \<Rightarrow> server_client" where
  "RPCServerClient_new base_options attachWebsocket options ws_protocol hs session =
     attachWebsocket
       \<lparr> sc_options = base_options options,
         sc_state = OPEN,
         sc_identity = opt_identity (base_options options),
         sc_protocol = ws_protocol,
         sc_session = session,
         sc_handshake = hs \<rparr>"

text \<open>
  \<open>_onConnection\<close>: \<open>Inl\<close> is the error with which the websocket is closed instead. Of the
  server's options only \<open>protocols\<close> is modelled; the other options are copied alike.
\<close>

definition onConnection ::
  "(base_client_options \<Rightarrow> base_client_options) \<Rightarrow> (server_client \<Rightarrow> server_client)
     \<Rightarrow> StateEnum \<Rightarrow> string list option \<Rightarrow> pending_upgrade option \<Rightarrow> string
     \<Rightarrow> js_error + server_client" where
  "onConnection base_options attachWebsocket server_state server_protocols pending ws_protocol =
     (if server_state \<noteq> OPEN then Inl (Error ''Server is no longer open'')
      else (case pending of
              None \<Rightarrow> Inl (Error ''Upgrade is not pending'')
            | Some pu \<Rightarrow>
                Inr (RPCServerClient_new base_options attachWebsocket
                       \<lparr> opt_identity = hs_identity (pu_handshake pu),
                         opt_endpoint = rq_url (hs_request (pu_handshake pu)),
                         opt_query = None,
                         opt_password = None,
                         opt_protocols = server_protocols,
                         opt_reconnect = False \<rparr>
                       ws_protocol (pu_handshake pu) (pu_session pu))))"

subsection \<open>An invariant of the handshake\<close>

text \<open>
  The invariant of a handshake under all events: at most one promotion and at most one
  \<open>upgradeAborted\<close> event; a promotion leaves the handshake resolved, and the event leaves
  the signal aborted.
\<close>

definition once_only :: "upgrade_state \<Rightarrow> bool" where
  "once_only s = (us_promotions s \<le> 1 \<and> length (us_upgradeAborted s) \<le> 1
     \<and> (us_promotions s = 1 \<longrightarrow> us_resolved s)
     \<and> (us_upgradeAborted s \<noteq> [] \<longrightarrow> us_signal_aborted s))"

section \<open>server: reconfigure\<close>

text \<open>
  The option \<open>strictMode\<close> is a boolean or a list of subprotocols (or undefined, when a caller
  passes the property without a value). Of a validator only its \<open>subprotocol\<close> is read.
\<close>

datatype strict_mode =
    StrictUndefined
  | StrictBoolean bool
  | StrictProtocols "string list"

record validator =
  v_subprotocol :: string

text \<open>
  The options of the server that \<open>reconfigure\<close> reads; \<open>None\<close> is \<open>undefined\<close>. The argument of
  \<open>reconfigure\<close> is a partial record: a property that the caller leaves out is \<open>None\<close>, and
  \<open>Object.assign\<close> copies every property that is present, whatever its value.
\<close>

record server_options =
  so_protocols :: "string list option"
  so_strictMode :: strict_mode
  so_strictModeValidators :: "validator list option"

record options_update =
  up_protocols :: "string list option option"
  up_strictMode :: "strict_mode option"
  up_strictModeValidators :: "validator list option option"

definition assign_options :: "server_options \<Rightarrow> options_update \<Rightarrow> server_options" where
  "assign_options old options =
     \<lparr> so_protocols = (case up_protocols options of None \<Rightarrow> so_protocols old | Some v \<Rightarrow> v),
       so_strictMode = (case up_strictMode options of None \<Rightarrow> so_strictMode old | Some v \<Rightarrow> v),
       so_strictModeValidators =
         (case up_strictModeValidators options of
            None \<Rightarrow> so_strictModeValidators old
          | Some v \<Rightarrow> v) \<rparr>"

text \<open>Truthiness of a \<open>strictMode\<close> value: an array is truthy even when it is empty.\<close>

definition strict_truthy :: "strict_mode \<Rightarrow> bool" where
  "strict_truthy m =
     (case m of StrictUndefined \<Rightarrow> False | StrictBoolean b \<Rightarrow> b | StrictProtocols ps \<Rightarrow> True)"

text \<open>The two fields of the server that \<open>reconfigure\<close> assigns.\<close>

record rpc_server =
  srv_options :: server_options
  srv_strictValidators :: "string \<rightharpoonup> validator"

text \<open>The defaults of the constructor, before its own call of \<open>reconfigure\<close>.\<close>

definition default_server :: rpc_server where
  "default_server =
     \<lparr> srv_options = \<lparr> so_protocols = Some [], so_strictMode = StrictBoolean False,
                        so_strictModeValidators = Some [] \<rparr>,
       srv_strictValidators = Map.empty \<rparr>"

text \<open>
  \<open>reconfigure(options)\<close>. The result is the error thrown, if any, and the server afterwards.
  \<open>standardValidators\<close> is the list exported by the module \<open>standard-validators\<close> and is a
  parameter. \<open>_strictValidators\<close> is assigned before the last check, \<open>_options\<close> after it.
  The last check is \<open>if (missingValidator)\<close>, which the empty string does not pass.
\<close>

definition reconfigure ::
  "validator list \<Rightarrow> options_update \<Rightarrow> rpc_server \<Rightarrow> js_error option \<times> rpc_server" where
  "reconfigure standardValidators options this =
     (let newOpts = assign_options (srv_options this) options in
      if strict_truthy (so_strictMode newOpts)
         \<and> (case so_protocols newOpts of None \<Rightarrow> True | Some ps \<Rightarrow> length ps = 0)
      then (Some (Error ''strictMode requires at least one subprotocol''), this)
      else
        (let strictValidators =
               standardValidators
               @ (case so_strictModeValidators newOpts of None \<Rightarrow> [] | Some vs \<Rightarrow> vs);
             this1 = this\<lparr> srv_strictValidators :=
                       fold (\<lambda>v svs. svs(v_subprotocol v \<mapsto> v)) strictValidators Map.empty \<rparr>
         in case (case so_strictMode newOpts of
                    StrictProtocols ps \<Rightarrow> Inr ps
                  | StrictBoolean b \<Rightarrow>
                      if b then
                        (case so_protocols newOpts of
                           None \<Rightarrow>
                             Inl (Error (''To use strictMode, you must specify at least one ''
                                  @ ''subprotocol in options.protocols or pass a list of ''
                                  @ ''protocols to options.strictMode''))
                         | Some ps \<Rightarrow> Inr ps)
                      else Inr []
                  | StrictUndefined \<Rightarrow> Inr []) of
              Inl err \<Rightarrow> (Some err, this1)
            | Inr strictProtocols \<Rightarrow>
                (case List.find (\<lambda>protocol. srv_strictValidators this1 protocol = None)
                        strictProtocols of
                   Some missingValidator \<Rightarrow>
                     if missingValidator \<noteq> ''''
                     then (Some (Error (''Missing strictMode validator for subprotocol ''
                                          @ [CHR 0x27] @ missingValidator @ [CHR 0x27])),
                           this1)
                     else (None, this1\<lparr> srv_options := newOpts \<rparr>)
                 | None \<Rightarrow> (None, this1\<lparr> srv_options := newOpts \<rparr>))))"

text \<open>
  The subprotocols that strict mode covers under given options, and the subprotocols for
  which a validator is registered: the standard ones and those of \<open>strictModeValidators\<close>.
\<close>

definition strict_protocols :: "server_options \<Rightarrow> string list" where
  "strict_protocols opts =
     (case so_strictMode opts of
        StrictProtocols ps \<Rightarrow> ps
      | StrictBoolean b \<Rightarrow>
          if b then (case so_protocols opts of Some ps \<Rightarrow> ps | None \<Rightarrow> []) else []
      | StrictUndefined \<Rightarrow> [])"

definition validator_names :: "validator list \<Rightarrow> server_options \<Rightarrow> string set" where
  "validator_names standardValidators opts =
     v_subprotocol `
       set (standardValidators
            @ (case so_strictModeValidators opts of None \<Rightarrow> [] | Some vs \<Rightarrow> vs))"

section \<open>client: connect and reconnect\<close>

text \<open>The options of \<open>RPCClient\<close>: those of the base class and \<open>maxReconnects\<close>, whose default
  is \<open>Infinity\<close>.\<close>

record client_options = base_client_options +
  opt_maxReconnects :: enat

text \<open>The events that the modelled methods emit.\<close>

datatype client_event =
    EvConnecting "string list"
  | EvProtocol string
  | EvOpen
  | EvClose nat string

text \<open>
  The fields of the client that \<open>connect\<close>, \<open>_beginConnect\<close> and \<open>_tryReconnect\<close> assign, and
  a log of what they do: the events emitted, the number of websockets opened (\<open>new WebSocket\<close>
  in \<open>_beginConnect\<close>), the number of backoff delays started by \<open>_tryReconnect\<close>, the
  \<open>Authorization\<close> header of the last websocket, and the calls of \<open>this.close\<close> with their code
  and reason. A promise is identified by the number of the websocket it belongs to.
\<close>

record rpc_client =
  cl_options :: client_options
  cl_state :: StateEnum
  cl_identity :: string
  cl_protocol :: "string option"
  cl_protocolOptions :: "string list"
  cl_connectionUrl :: "string option"
  cl_connectPromise :: "nat option"
  cl_reconnectAttempt :: nat
  cl_connectedOnce :: bool
  cl_emitted :: "client_event list"
  cl_sockets :: nat
  cl_delays :: nat
  cl_authorization :: "string option"
  cl_close_calls :: "(nat \<times> string) list"

text \<open>How the connection attempt of one websocket ends: \<open>open\<close> with the protocol that the
  server selected, or an error.\<close>

datatype attempt =
    Opens string
  | Fails js_error

definition error_message :: "js_error \<Rightarrow> string" where
  "error_message err =
     (case err of
        Error m \<Rightarrow> m
      | TypeError m \<Rightarrow> m
      | RangeError m \<Rightarrow> m
      | WebsocketUpgradeError code m \<Rightarrow> m)"

text \<open>
  \<open>_beginConnect\<close>, together with the outcome of the promise it creates (\<open>Inl\<close>: it rejects).
  The state becomes \<open>CONNECTING\<close> and \<open>connecting\<close> is emitted before the attempt ends.
\<close>

definition beginConnect :: "attempt \<Rightarrow> rpc_client \<Rightarrow> (js_error + unit) \<times> rpc_client" where
  "beginConnect outcome c =
     (let c1 = c\<lparr> cl_connectPromise := Some (Suc (cl_sockets c)),
                   cl_sockets := Suc (cl_sockets c),
                   cl_authorization :=
                     authorization_header (cl_identity c) (opt_password (cl_options c)),
                   cl_state := CONNECTING,
                   cl_emitted := cl_emitted c @ [EvConnecting (cl_protocolOptions c)] \<rparr>
      in case outcome of
           Fails err \<Rightarrow> (Inl err, c1)
         | Opens p \<Rightarrow>
             (let protocol = (case cl_protocol c1 of None \<Rightarrow> p | Some q \<Rightarrow> q)
              in (Inr (),
                  c1\<lparr> cl_protocol := Some protocol,
                      cl_protocolOptions := (if protocol \<noteq> '''' then [protocol] else []),
                      cl_reconnectAttempt := 0,
                      cl_state := OPEN,
                      cl_connectedOnce := True,
                      cl_emitted :=
                        cl_emitted c1
                        @ (if cl_protocol c1 = None then [EvProtocol p] else [])
                        @ [EvOpen] \<rparr>)))"

text \<open>
  The connection URL of \<open>connect\<close>. \<open>encodeURIComponent\<close>, \<open>new URLSearchParams(q).toString()\<close>
  and \<open>new URL\<close> are built-ins of the platform, each of which may throw; they are parameters.
  An empty \<open>query\<close> is falsy and adds nothing.
\<close>

definition connection_url ::
  "(string \<Rightarrow> js_error + string) \<Rightarrow> (string \<Rightarrow> js_error + string) \<Rightarrow> (string \<Rightarrow> js_error + string)
     \<Rightarrow> client_options \<Rightarrow> js_error + string" where
  "connection_url encodeURIComponent searchParams new_URL options =
     (case encodeURIComponent (opt_identity options) of
        Inl err \<Rightarrow> Inl err
      | Inr encoded \<Rightarrow>
          (let connUrl = opt_endpoint options @ ''/'' @ encoded in
           case (case opt_query options of
                   None \<Rightarrow> Inr connUrl
                 | Some q \<Rightarrow>
                     if q = '''' then Inr connUrl
                     else (case searchParams q of
                             Inl err \<Rightarrow> Inl err
                           | Inr qs \<Rightarrow> Inr (connUrl @ ''?'' @ qs))) of
             Inl err \<Rightarrow> Inl err
           | Inr u \<Rightarrow> new_URL u))"

text \<open>
  What the promise of \<open>connect\<close> does: it resolves, it rejects with an error, or (for
  \<open>return this._connectPromise\<close>) it follows the promise stored in the client.
\<close>

datatype connect_result =
    Resolves
  | Rejects js_error
  | Follows "nat option"

definition connect ::
  "(string \<Rightarrow> js_error + string) \<Rightarrow> (string \<Rightarrow> js_error + string) \<Rightarrow> (string \<Rightarrow> js_error + string)
     \<Rightarrow> attempt \<Rightarrow> rpc_client \<Rightarrow> connect_result \<times> rpc_client" where
  "connect encodeURIComponent searchParams new_URL outcome c =
     (let c1 = c\<lparr> cl_protocolOptions :=
                     (case opt_protocols (cl_options c) of Some ps \<Rightarrow> ps | None \<Rightarrow> []),
                   cl_protocol := None,
                   cl_identity := opt_identity (cl_options c) \<rparr>
      in case connection_url encodeURIComponent searchParams new_URL (cl_options c1) of
           Inl err \<Rightarrow> (Rejects err, c1)
         | Inr url \<Rightarrow>
             (let c2 = c1\<lparr> cl_connectionUrl := Some url \<rparr> in
              if cl_state c2 = CLOSED then
                (case beginConnect outcome c2 of
                   (Inr result, c3) \<Rightarrow> (Resolves, c3)
                 | (Inl err, c3) \<Rightarrow>
                     (Rejects err,
                      c3\<lparr> cl_state := CLOSED,
                          cl_emitted := cl_emitted c3 @ [EvClose 1006 ''Abnormal Closure''] \<rparr>))
              else if cl_state c2 = CLOSING then
                (Rejects (Error ''Cannot connect while closing''), c2)
              else if cl_state c2 \<in> {OPEN, CONNECTING} then
                (Follows (cl_connectPromise c2), c2)
              else (Rejects (Error ''Client in unexpected state''), c2)))"

subsection \<open>_tryReconnect\<close>

definition intolerableErrors :: "string list" where
  "intolerableErrors =
     [''Maximum redirects exceeded'',
      ''Server sent no subprotocol'',
      ''Server sent an invalid subprotocol'',
      ''Server sent a subprotocol but none was requested'',
      ''Invalid Sec-WebSocket-Accept header'']"

text \<open>\<open>this.close({code, reason})\<close> is a method of the base class; the model records the call.\<close>

definition close_call :: "nat \<Rightarrow> string \<Rightarrow> rpc_client \<Rightarrow> rpc_client" where
  "close_call code reason c = c\<lparr> cl_close_calls := cl_close_calls c @ [(code, reason)] \<rparr>"

text \<open>
  What happens after a backoff delay has been started: the delay is aborted, or it elapses
  and the websocket that \<open>_beginConnect\<close> opens ends as given.
\<close>

datatype reconnect_step =
    DelayAborted
  | Attempt attempt

text \<open>
  \<open>_tryReconnect\<close>, run against a script of what the following delays and attempts do; an
  empty script means that the delay is still running. The recursion is the call
  \<open>this._tryReconnect()\<close> in the first \<open>catch\<close> handler; an error that this handler rethrows
  reaches the second handler, which calls \<open>close\<close>.
\<close>

fun tryReconnect :: "reconnect_step list \<Rightarrow> rpc_client \<Rightarrow> rpc_client" where
  "tryReconnect [] c =
     (let c1 = c\<lparr> cl_reconnectAttempt := Suc (cl_reconnectAttempt c) \<rparr> in
      if enat (cl_reconnectAttempt c1) > opt_maxReconnects (cl_options c1)
      then close_call 1001 ''Giving up'' c1
      else c1\<lparr> cl_state := CONNECTING, cl_delays := Suc (cl_delays c1) \<rparr>)"
| "tryReconnect (step # script) c =
     (let c1 = c\<lparr> cl_reconnectAttempt := Suc (cl_reconnectAttempt c) \<rparr> in
      if enat (cl_reconnectAttempt c1) > opt_maxReconnects (cl_options c1)
      then close_call 1001 ''Giving up'' c1
      else
        (let c2 = c1\<lparr> cl_state := CONNECTING, cl_delays := Suc (cl_delays c1) \<rparr> in
         case step of
           DelayAborted \<Rightarrow> c2
         | Attempt outcome \<Rightarrow>
             (case beginConnect outcome c2 of
                (Inr result, c3) \<Rightarrow> c3
              | (Inl err, c3) \<Rightarrow>
                  if error_message err \<in> set intolerableErrors
                  then close_call 1001 (error_message err) c3
                  else tryReconnect script c3)))"

section \<open>Concrete inputs\<close>

text \<open>
  Scenario 5 of the specification: identity \<open>dev:1\<close>, password bytes \<open>p:q\<close>, so that the
  client sends \<open>Basic\<close> followed by the base64 form of \<open>dev:1:p:q\<close>; the request asks for
  \<open>/ocpp/dev%3A1\<close>. The two functions stand for \<open>decodeURIComponent\<close> and \<open>parseSubprotocols\<close>
  on this request.
\<close>

definition scenario_request :: upgrade_request where
  "scenario_request =
     \<lparr> rq_url = ''/ocpp/dev%3A1'', rq_pathname = ''/ocpp/dev%3A1'', rq_search = '''',
       rq_upgrade = Some ''WebSocket'', rq_authorization = Some ''Basic ZGV2OjE6cDpx'',
       rq_sec_websocket_protocol = Some ''ocpp2.0.1, ocpp1.6'',
       rq_remoteAddress = Some ''10.0.0.7'' \<rparr>"



definition scenario_handshake :: handshake where
  "scenario_handshake =
     \<lparr> hs_remoteAddress = ''10.0.0.7'', hs_protocols = [''ocpp2.0.1'', ''ocpp1.6''],
       hs_endpoint = ''/ocpp'', hs_identity = ''dev:1'', hs_query = '''',
       hs_password = Some (map of_char ''p:q''), hs_request = scenario_request \<rparr>"

text \<open>
  A client that has lost its connection to \<open>ws://h/ep\<close> after negotiating \<open>ocpp1.6\<close>, with at
  most one reconnect allowed.
\<close>

definition scenario_client :: rpc_client where
  "scenario_client =
     \<lparr> cl_options =
         \<lparr> opt_identity = ''dev1'', opt_endpoint = ''ws://h/ep'', opt_query = None,
           opt_password = None, opt_protocols = Some [''ocpp1.6''], opt_reconnect = True,
           opt_maxReconnects = 1 \<rparr>,
       cl_state = OPEN, cl_identity = ''dev1'', cl_protocol = Some ''ocpp1.6'',
       cl_protocolOptions = [''ocpp1.6''], cl_connectionUrl = Some ''ws://h/ep/dev1'',
       cl_connectPromise = Some 1, cl_reconnectAttempt = 0, cl_connectedOnce = True,
       cl_emitted = [], cl_sockets = 1, cl_delays = 0, cl_authorization = None,
       cl_close_calls = [] \<rparr>"

text \<open>Validators for the two standard subprotocols.\<close>

definition scenario_validators :: "validator list" where
  "scenario_validators = [\<lparr> v_subprotocol = ''ocpp1.6'' \<rparr>, \<lparr> v_subprotocol = ''ocpp2.0.1'' \<rparr>]"

text \<open>
  \<open>new URL\<close> on the strings of the scenarios: \<open>ws://h/ep/dev1\<close> parses, and a string without
  a scheme, such as \<open>h/ep/dev1\<close>, makes the constructor throw a \<open>TypeError\<close>. The identity
  \<open>dev1\<close> has no character that \<open>encodeURIComponent\<close> escapes, and the scenarios have no
  query, so these two functions are the identity there.
\<close>

definition scenario_new_URL :: "string \<Rightarrow> js_error + string" where
  "scenario_new_URL u =
     (if take 5 u = ''ws://'' then Inr u else Inl (TypeError ''Invalid URL''))"

text \<open>The scenario client after \<open>reconfigure({endpoint: 'h/ep'})\<close>.\<close>

definition scenario_client_moved :: rpc_client where
  "scenario_client_moved =
     scenario_client\<lparr> cl_options := (cl_options scenario_client)\<lparr> opt_endpoint := ''h/ep'' \<rparr> \<rparr>"

section \<open>Properties of util\<close>

text \<open>
  C3. Validation-keyword translation: each of the seventeen keywords of the table is
  translated to the OCPP error code of its row, and every keyword outside the table is
  translated to \<open>FormatViolation\<close>.
\<close>

theorem translateErrorToOCPPCode_table:
  "translateErrorToOCPPCode ''maximum'' = ''FormatViolation''
   \<and> translateErrorToOCPPCode ''minimum'' = ''FormatViolation''
   \<and> translateErrorToOCPPCode ''maxLength'' = ''FormatViolation''
   \<and> translateErrorToOCPPCode ''minLength'' = ''FormatViolation''
   \<and> translateErrorToOCPPCode ''exclusiveMaximum'' = ''OccurenceConstraintViolation''
   \<and> translateErrorToOCPPCode ''exclusiveMinimum'' = ''OccurenceConstraintViolation''
   \<and> translateErrorToOCPPCode ''multipleOf'' = ''OccurenceConstraintViolation''
   \<and> translateErrorToOCPPCode ''maxItems'' = ''OccurenceConstraintViolation''
   \<and> translateErrorToOCPPCode ''minItems'' = ''OccurenceConstraintViolation''
   \<and> translateErrorToOCPPCode ''maxProperties'' = ''OccurenceConstraintViolation''
   \<and> translateErrorToOCPPCode ''minProperties'' = ''OccurenceConstraintViolation''
   \<and> translateErrorToOCPPCode ''additionalItems'' = ''OccurenceConstraintViolation''
   \<and> translateErrorToOCPPCode ''required'' = ''OccurenceConstraintViolation''
   \<and> translateErrorToOCPPCode ''pattern'' = ''PropertyConstraintViolation''
   \<and> translateErrorToOCPPCode ''propertyNames'' = ''PropertyConstraintViolation''
   \<and> translateErrorToOCPPCode ''additionalProperties'' = ''PropertyConstraintViolation''
   \<and> translateErrorToOCPPCode ''type'' = ''TypeConstraintViolation''
   \<and> (\<forall>keyword. keyword \<notin> set table_keywords
          \<longrightarrow> translateErrorToOCPPCode keyword = ''FormatViolation'')"
  by (simp add: translateErrorToOCPPCode_def table_keywords_def)

text \<open>C3, witness: the keyword \<open>enum\<close> is not in the table.\<close>

theorem translateErrorToOCPPCode_table_witness:
  "''enum'' \<notin> set table_keywords \<and> translateErrorToOCPPCode ''enum'' = ''FormatViolation''"
proof -
  have out: "''enum'' \<notin> set table_keywords"
    by (simp add: table_keywords_def)
  from translateErrorToOCPPCode_table
  have "\<forall>keyword. keyword \<notin> set table_keywords
          \<longrightarrow> translateErrorToOCPPCode keyword = ''FormatViolation''"
    by blast
  with out show ?thesis by blast
qed


subsection \<open>createRPCError\<close>

text \<open>
  Each of the fourteen codes is mapped to the import that \<open>rpcErrorLUT\<close> names for it, and
  a string that is neither one of the codes nor the name of an inherited property is mapped
  to \<open>RPCGenericError\<close>.
\<close>

lemma createRPCError_known_codes:
  "map created_class (map fst rpcErrorLUT) = map (\<lambda>entry. Some (snd entry)) rpcErrorLUT"
  by (simp add: created_class_def createRPCError_def rpcErrorLUT_get_def rpcErrorLUT_def
      coalesce_def nullish_def)

lemma createRPCError_unknown_code:
  assumes "type \<notin> set (map fst rpcErrorLUT)" and "type \<notin> set Object_prototype_keys"
  shows "createRPCError type message details
     = Inr (RPCErrorInstance RPCGenericError
              (case message of None \<Rightarrow> '''' | Some m \<Rightarrow> m)
              (coalesce details (JSObject [])))"
proof -
  from assms(1) have "map_of rpcErrorLUT type = None"
    by (simp add: map_of_eq_None_iff)
  with assms(2) show ?thesis
    by (simp add: createRPCError_def rpcErrorLUT_get_def)
qed

text \<open>
  C7, at the failing input. The code \<open>constructor\<close> is not a key of \<open>rpcErrorLUT\<close>, yet the
  lookup finds the inherited property, the fallback \<open>?? RPCGenericError\<close> is not taken, and
  \<open>createRPCError\<close> returns a boxed string instead of an \<open>RPCGenericError\<close>; for \<open>toString\<close> it
  throws a \<open>TypeError\<close>. An unknown code that names no inherited property gets the
  \<open>RPCGenericError\<close>.
\<close>

theorem createRPCError_inherited_property:
  "''constructor'' \<notin> set (map fst rpcErrorLUT)
   \<and> createRPCError ''constructor'' (Some ''boom'') JSUndefined
       = Inr (BoxedString ''boom'' (JSObject []))
   \<and> created_class ''constructor'' = None
   \<and> ''toString'' \<notin> set (map fst rpcErrorLUT)
   \<and> createRPCError ''toString'' (Some ''boom'') JSUndefined
       = Inl (TypeError ''E is not a constructor'')
   \<and> created_class ''NoSuchCode'' = Some RPCGenericError"
  by (simp add: created_class_def createRPCError_def rpcErrorLUT_get_def rpcErrorLUT_def
      Object_prototype_keys_def coalesce_def nullish_def)

section \<open>Properties of the Basic authorization header\<close>

subsection \<open>Decoding inverts encoding\<close>

































subsection \<open>C1\<close>



section \<open>Properties of the upgrade handshake\<close>

subsection \<open>Effects of abortUpgrade, accept and reject\<close>

lemma abortUpgrade_resolved: "us_resolved (abortUpgrade err s)"
  by (cases err) (simp_all add: abortUpgrade_def Let_def)

lemma abortUpgrade_promotions: "us_promotions (abortUpgrade err s) = us_promotions s"
  by (cases err) (simp_all add: abortUpgrade_def Let_def)

lemma abortUpgrade_pending: "us_pending (abortUpgrade err s) = us_pending s"
  by (cases err) (simp_all add: abortUpgrade_def Let_def)

lemma abortUpgrade_calls:
  "us_abortHandshake (abortUpgrade err s) =
     us_abortHandshake s @
       [case err of WebsocketUpgradeError code message \<Rightarrow> (code, Some message) | _ \<Rightarrow> (500, None)]"
  by (cases err) (simp_all add: abortUpgrade_def Let_def)

lemma abortUpgrade_events:
  "us_upgradeAborted (abortUpgrade err s) =
     (if us_signal_aborted s then us_upgradeAborted s else us_upgradeAborted s @ [err])"
  by (cases err) (simp_all add: abortUpgrade_def Let_def)

lemma abortUpgrade_signal: "us_signal_aborted (abortUpgrade err s)"
  by (cases err) (simp_all add: abortUpgrade_def Let_def)

lemmas abortUpgrade_simps = abortUpgrade_resolved abortUpgrade_promotions abortUpgrade_pending
  abortUpgrade_calls abortUpgrade_events abortUpgrade_signal

lemma accept_resolved: "us_resolved (accept sp hs rs session protocol s)"
  by (simp add: accept_def Let_def abortUpgrade_resolved split: option.splits sum.splits)

lemma reject_resolved: "us_resolved (reject code message s)"
  by (simp add: reject_def abortUpgrade_resolved)

lemma step_resolved: "is_resolution e \<Longrightarrow> us_resolved (upgrade_step sp hs e s)"
  by (cases e) (simp_all add: accept_resolved reject_resolved)

lemma step_noop: "us_resolved s \<Longrightarrow> is_resolution e \<Longrightarrow> upgrade_step sp hs e s = s"
  by (cases e) (simp_all add: accept_def reject_def)

lemma run_noop: "us_resolved s \<Longrightarrow> list_all is_resolution es \<Longrightarrow> upgrade_run sp hs es s = s"
  by (induction es) (simp_all add: step_noop)

lemma run_first_wins:
  "list_all is_resolution (e # es) \<Longrightarrow>
     upgrade_run sp hs (e # es) s = upgrade_step sp hs e s"
  by (simp add: run_noop step_resolved)

lemma step_effects:
  "\<not> us_resolved s \<Longrightarrow> is_resolution e \<Longrightarrow>
     us_promotions (upgrade_step sp hs e s) + length (us_abortHandshake (upgrade_step sp hs e s))
       = Suc (us_promotions s + length (us_abortHandshake s))"
  by (cases e)
    (auto simp add: accept_def reject_def Let_def abortUpgrade_simps split: option.splits sum.splits)

lemma once_only_abort: "once_only s \<Longrightarrow> once_only (abortUpgrade err s)"
  by (auto simp add: once_only_def abortUpgrade_simps)

lemma once_only_step: "once_only s \<Longrightarrow> once_only (upgrade_step sp hs e s)"
proof (cases e)
  case (Accept rs session protocol)
  assume "once_only s"
  then show ?thesis
    using Accept once_only_abort [of "s\<lparr>us_resolved := True\<rparr>"]
    by (auto simp add: accept_def Let_def once_only_def abortUpgrade_simps
        split: option.splits sum.splits)
next
  case (Reject code message)
  assume "once_only s"
  then show ?thesis using Reject
    by (auto simp add: reject_def once_only_def abortUpgrade_simps)
next
  case SocketEnd
  assume "once_only s"
  then show ?thesis using SocketEnd
    by (auto simp add: reject_def once_only_def abortUpgrade_simps)
next
  case SocketClose
  assume "once_only s"
  then show ?thesis using SocketClose
    by (auto simp add: reject_def once_only_def abortUpgrade_simps)
next
  case (SocketError err)
  assume "once_only s"
  then show ?thesis using SocketError by (simp add: once_only_abort)
next
  case (CallbackThrows err)
  assume "once_only s"
  then show ?thesis using CallbackThrows by (simp add: once_only_abort)
qed

lemma once_only_run: "once_only s \<Longrightarrow> once_only (upgrade_run sp hs es s)"
  by (induction es arbitrary: s) (simp_all add: once_only_step)

lemma once_only_start: "once_only upgrade_start"
  by (simp add: once_only_def upgrade_start_def)

subsection \<open>C6, C8 and C9\<close>

text \<open>
  C6 (as stated). The abort path would be a no-op once the handshake is resolved. It is not:
  when the authorization callback calls \<open>accept\<close> and then throws, the upgrade is promoted
  and afterwards \<open>abortUpgrade\<close> calls \<open>abortHandshake\<close> with status 500 and emits
  \<open>upgradeAborted\<close>, so one handshake has both a promotion and an abort.
\<close>

theorem handshake_abort_after_accept_counterexample:
  "us_promotions
     (upgrade_run (Some [''ocpp1.6'']) scenario_handshake
        [Accept ''open'' JSUndefined None, CallbackThrows (Error ''boom'')] upgrade_start) = 1
   \<and> us_abortHandshake
     (upgrade_run (Some [''ocpp1.6'']) scenario_handshake
        [Accept ''open'' JSUndefined None, CallbackThrows (Error ''boom'')] upgrade_start)
       = [(500, None)]
   \<and> us_upgradeAborted
     (upgrade_run (Some [''ocpp1.6'']) scenario_handshake
        [Accept ''open'' JSUndefined None, CallbackThrows (Error ''boom'')] upgrade_start)
       = [Error ''boom'']"
  by (simp add: accept_def abortUpgrade_def upgrade_start_def Let_def)

text \<open>
  C6 (amended). Among the calls of \<open>accept\<close> and \<open>reject\<close>, including the rejects triggered
  by the socket events \<open>end\<close> and \<open>close\<close>, only the first takes effect: such a call on a
  resolved handshake leaves the state unchanged, and a sequence of such calls does what its
  first call does, which is exactly one promotion or one abort. Whatever the events, the
  abort path included, a handshake is promoted at most once and emits \<open>upgradeAborted\<close> at
  most once. When the socket ends or closes before the handshake is resolved, the handshake
  is rejected with status 400 and nothing is promoted.
\<close>

theorem handshake_resolution_first_wins:
  "(us_resolved s \<and> is_resolution e \<longrightarrow> upgrade_step sp hs e s = s)
   \<and> (list_all is_resolution (e # es) \<longrightarrow>
        upgrade_run sp hs (e # es) upgrade_start = upgrade_step sp hs e upgrade_start
        \<and> us_promotions (upgrade_run sp hs (e # es) upgrade_start)
            + length (us_abortHandshake (upgrade_run sp hs (e # es) upgrade_start)) = 1)
   \<and> us_promotions (upgrade_run sp hs events upgrade_start) \<le> 1
   \<and> length (us_upgradeAborted (upgrade_run sp hs events upgrade_start)) \<le> 1
   \<and> (\<not> us_resolved s \<and> (e = SocketEnd \<or> e = SocketClose) \<longrightarrow>
        us_abortHandshake (upgrade_step sp hs e s)
          = us_abortHandshake s
              @ [(400, Some ''Client connection closed before upgrade complete'')]
        \<and> us_resolved (upgrade_step sp hs e s)
        \<and> us_promotions (upgrade_step sp hs e s) = us_promotions s)"
proof -
  have noop: "upgrade_step sp hs e s = s" if "us_resolved s \<and> is_resolution e"
    using that by (simp add: step_noop)
  have first: "upgrade_run sp hs (e # es) upgrade_start = upgrade_step sp hs e upgrade_start
        \<and> us_promotions (upgrade_run sp hs (e # es) upgrade_start)
            + length (us_abortHandshake (upgrade_run sp hs (e # es) upgrade_start)) = 1"
    if r: "list_all is_resolution (e # es)"
  proof -
    from r have eq: "upgrade_run sp hs (e # es) upgrade_start = upgrade_step sp hs e upgrade_start"
      by (rule run_first_wins)
    from r have "is_resolution e" by simp
    moreover have "\<not> us_resolved upgrade_start" by (simp add: upgrade_start_def)
    ultimately have "us_promotions (upgrade_step sp hs e upgrade_start)
        + length (us_abortHandshake (upgrade_step sp hs e upgrade_start))
        = Suc (us_promotions upgrade_start + length (us_abortHandshake upgrade_start))"
      using step_effects by blast
    with eq show ?thesis by (simp add: upgrade_start_def)
  qed
  have once: "once_only (upgrade_run sp hs events upgrade_start)"
    using once_only_start by (rule once_only_run)
  have died: "us_abortHandshake (upgrade_step sp hs e s)
          = us_abortHandshake s
              @ [(400, Some ''Client connection closed before upgrade complete'')]
        \<and> us_resolved (upgrade_step sp hs e s)
        \<and> us_promotions (upgrade_step sp hs e s) = us_promotions s"
    if "\<not> us_resolved s \<and> (e = SocketEnd \<or> e = SocketClose)"
    using that by (auto simp add: reject_def abortUpgrade_simps)
  from noop first once died show ?thesis
    unfolding once_only_def by blast
qed

text \<open>
  C6, witness: \<open>accept\<close> after \<open>reject\<close> changes nothing; the sequence \<open>reject\<close>, \<open>accept\<close>,
  socket end does what \<open>reject\<close> does; the socket ending on a fresh handshake rejects with 400.
\<close>

theorem handshake_resolution_first_wins_witness:
  "us_resolved (reject None None upgrade_start)
   \<and> is_resolution (Accept ''open'' JSUndefined None)
   \<and> upgrade_step (Some [''ocpp1.6'']) scenario_handshake (Accept ''open'' JSUndefined None)
         (reject None None upgrade_start) = reject None None upgrade_start
   \<and> list_all is_resolution [Reject None None, Accept ''open'' JSUndefined None, SocketEnd]
   \<and> upgrade_run (Some [''ocpp1.6'']) scenario_handshake
         [Reject None None, Accept ''open'' JSUndefined None, SocketEnd] upgrade_start
       = upgrade_step (Some [''ocpp1.6'']) scenario_handshake (Reject None None) upgrade_start
   \<and> \<not> us_resolved upgrade_start
   \<and> us_abortHandshake
         (upgrade_step (Some [''ocpp1.6'']) scenario_handshake SocketEnd upgrade_start)
       = us_abortHandshake upgrade_start
           @ [(400, Some ''Client connection closed before upgrade complete'')]"
proof -
  have rejected: "us_resolved (reject None None upgrade_start)"
    by (rule reject_resolved)
  have call: "is_resolution (Accept ''open'' JSUndefined None)"
    by simp
  have calls: "list_all is_resolution [Reject None None, Accept ''open'' JSUndefined None, SocketEnd]"
    by simp
  have fresh: "\<not> us_resolved upgrade_start"
    by (simp add: upgrade_start_def)
  note late = handshake_resolution_first_wins
      [where s = "reject None None upgrade_start" and e = "Accept ''open'' JSUndefined None"
        and sp = "Some [''ocpp1.6'']" and hs = scenario_handshake and es = "[]" and events = "[]"]
  note sequence = handshake_resolution_first_wins
      [where s = upgrade_start and e = "Reject None None"
        and sp = "Some [''ocpp1.6'']" and hs = scenario_handshake
        and es = "[Accept ''open'' JSUndefined None, SocketEnd]" and events = "[]"]
  note ended = handshake_resolution_first_wins
      [where s = upgrade_start and e = SocketEnd
        and sp = "Some [''ocpp1.6'']" and hs = scenario_handshake and es = "[]" and events = "[]"]
  have a: "upgrade_step (Some [''ocpp1.6'']) scenario_handshake (Accept ''open'' JSUndefined None)
         (reject None None upgrade_start) = reject None None upgrade_start"
    using late [THEN conjunct1] rejected call by simp
  have b: "upgrade_run (Some [''ocpp1.6'']) scenario_handshake
         [Reject None None, Accept ''open'' JSUndefined None, SocketEnd] upgrade_start
       = upgrade_step (Some [''ocpp1.6'']) scenario_handshake (Reject None None) upgrade_start"
    using sequence [THEN conjunct2, THEN conjunct1] calls by blast
  have c: "us_abortHandshake
         (upgrade_step (Some [''ocpp1.6'']) scenario_handshake SocketEnd upgrade_start)
       = us_abortHandshake upgrade_start
           @ [(400, Some ''Client connection closed before upgrade complete'')]"
    using ended [THEN conjunct2, THEN conjunct2, THEN conjunct2, THEN conjunct2] fresh by blast
  from rejected call a calls b fresh c show ?thesis by blast
qed

text \<open>
  C8. A server-side peer is created in the state \<open>OPEN\<close>. Whenever \<open>_onConnection\<close> creates a
  client, an upgrade was pending, and the client is in state \<open>OPEN\<close> (not \<open>CONNECTING\<close>), has
  the identity of the handshake and the protocol of the websocket, and has \<open>reconnect\<close>
  switched off. The base class is a parameter: its constructor is assumed to keep the
  options \<open>identity\<close> and \<open>reconnect\<close> as given, and \<open>_attachWebsocket\<close> to leave the state,
  the identity, the protocol and the options alone.
\<close>

theorem server_client_created_open:
  assumes created:
      "onConnection base_options attachWebsocket server_state server_protocols pending ws_protocol
         = Inr client"
    and attach: "\<forall>c. sc_state (attachWebsocket c) = sc_state c
        \<and> sc_identity (attachWebsocket c) = sc_identity c
        \<and> sc_protocol (attachWebsocket c) = sc_protocol c
        \<and> sc_options (attachWebsocket c) = sc_options c"
    and base: "\<forall>options. opt_identity (base_options options) = opt_identity options
        \<and> opt_reconnect (base_options options) = opt_reconnect options"
  shows "\<exists>pu. pending = Some pu
      \<and> sc_state client = OPEN
      \<and> sc_state client \<noteq> CONNECTING
      \<and> sc_identity client = hs_identity (pu_handshake pu)
      \<and> sc_protocol client = ws_protocol
      \<and> \<not> opt_reconnect (sc_options client)"
  using created attach base
  by (auto simp add: onConnection_def RPCServerClient_new_def split: if_splits option.splits)

text \<open>
  C8, witness: the pending upgrade of the scenario handshake with protocol \<open>ocpp1.6\<close>; the
  base-class methods are taken to do nothing.
\<close>

theorem server_client_created_open_witness:
  "(\<exists>client. onConnection (\<lambda>options. options) (\<lambda>c. c) OPEN (Some [''ocpp1.6''])
        (Some \<lparr> pu_session = JSObject [], pu_protocol = Some ''ocpp1.6'',
                 pu_handshake = scenario_handshake \<rparr>) ''ocpp1.6'' = Inr client
      \<and> sc_state client = OPEN
      \<and> sc_identity client = ''dev:1''
      \<and> sc_protocol client = ''ocpp1.6''
      \<and> \<not> opt_reconnect (sc_options client))"
proof -
  let ?pu = "\<lparr> pu_session = JSObject [], pu_protocol = Some ''ocpp1.6'',
                 pu_handshake = scenario_handshake \<rparr>"
  obtain client where created:
    "onConnection (\<lambda>options. options) (\<lambda>c. c) OPEN (Some [''ocpp1.6'']) (Some ?pu) ''ocpp1.6''
       = Inr client"
    by (simp add: onConnection_def)
  have attach: "\<forall>c::server_client. sc_state ((\<lambda>c. c) c) = sc_state c
        \<and> sc_identity ((\<lambda>c. c) c) = sc_identity c
        \<and> sc_protocol ((\<lambda>c. c) c) = sc_protocol c
        \<and> sc_options ((\<lambda>c. c) c) = sc_options c"
    by simp
  have base: "\<forall>options::base_client_options.
        opt_identity ((\<lambda>options. options) options) = opt_identity options
        \<and> opt_reconnect ((\<lambda>options. options) options) = opt_reconnect options"
    by simp
  from server_client_created_open [OF created attach base]
  have "sc_state client = OPEN \<and> sc_identity client = hs_identity scenario_handshake
      \<and> sc_protocol client = ''ocpp1.6'' \<and> \<not> opt_reconnect (sc_options client)"
    by auto
  with created show ?thesis
    by (auto simp add: scenario_handshake_def)
qed

text \<open>
  C9. Session defaulting. When a call of \<open>accept\<close> promotes the upgrade, the session stored
  for the pending upgrade is \<open>{}\<close> if the session argument is \<open>undefined\<close> (or left out) or
  \<open>null\<close>, and the argument itself otherwise; it is never \<open>undefined\<close>. The client that
  \<open>_onConnection\<close> creates from the pending upgrade exposes exactly this session, provided
  that \<open>_attachWebsocket\<close> leaves the field alone.
\<close>

theorem accept_session_default:
  assumes accepted:
    "us_promotions (accept sp hs readyState session protocol s) = Suc (us_promotions s)"
  shows
  "\<exists>pu. us_pending (accept sp hs readyState session protocol s) = Some pu
      \<and> pu_session pu
          = (if session = JSUndefined \<or> session = JSNull then JSObject [] else session)
      \<and> pu_session pu \<noteq> JSUndefined
      \<and> ((\<forall>c. sc_session (attachWebsocket c) = sc_session c)
           \<and> onConnection base_options attachWebsocket server_state server_protocols
                 (Some pu) ws_protocol = Inr client
           \<longrightarrow> sc_session client = pu_session pu)"
proof -
  have unresolved: "\<not> us_resolved s"
    using accepted by (auto simp add: accept_def)
  let ?pu = "\<lparr> pu_session = coalesce session (JSObject []),
               pu_protocol =
                 (case protocol of
                    None \<Rightarrow> List.find (\<lambda>q. q \<in> set (hs_protocols hs))
                              (case sp of Some ps \<Rightarrow> ps | None \<Rightarrow> [])
                  | Some p \<Rightarrow> Some p),
               pu_handshake = hs \<rparr>"
  have pending: "us_pending (accept sp hs readyState session protocol s) = Some ?pu"
    using accepted unresolved
    by (auto simp add: accept_def Let_def abortUpgrade_simps split: option.splits if_splits)
  have session: "pu_session ?pu
      = (if session = JSUndefined \<or> session = JSNull then JSObject [] else session)"
    by (simp add: coalesce_def nullish_def)
  have exposed: "sc_session client = pu_session ?pu"
    if "(\<forall>c. sc_session (attachWebsocket c) = sc_session c)
           \<and> onConnection base_options attachWebsocket server_state server_protocols
                 (Some ?pu) ws_protocol = Inr client"
    using that
    by (auto simp add: onConnection_def RPCServerClient_new_def split: if_splits)
  from pending session exposed show ?thesis
    by (intro exI [of _ ?pu]) auto
qed

text \<open>
  C9, witness: \<open>accept(null)\<close> on the fresh scenario handshake; the base-class methods are
  taken to do nothing.
\<close>

theorem accept_session_default_witness:
  "us_promotions
      (accept (Some [''ocpp1.6'']) scenario_handshake ''open'' JSNull None upgrade_start)
     = Suc (us_promotions upgrade_start)
   \<and> (\<exists>pu. us_pending
               (accept (Some [''ocpp1.6'']) scenario_handshake ''open'' JSNull None upgrade_start)
             = Some pu
          \<and> pu_session pu = JSObject []
          \<and> (\<exists>client.
                onConnection (\<lambda>options. options) (\<lambda>c. c) OPEN (Some [''ocpp1.6''])
                  (Some pu) ''ocpp1.6'' = Inr client
                \<and> sc_session client = JSObject []))"
proof -
  have accepted: "us_promotions
      (accept (Some [''ocpp1.6'']) scenario_handshake ''open'' JSNull None upgrade_start)
     = Suc (us_promotions upgrade_start)"
    by (simp add: accept_def upgrade_start_def Let_def)
  from accept_session_default [OF accepted,
      where attachWebsocket = "\<lambda>c. c" and base_options = "\<lambda>options. options"
        and server_state = OPEN and server_protocols = "Some [''ocpp1.6'']"
        and ws_protocol = "''ocpp1.6''"
        and client = "projr (onConnection (\<lambda>options. options) (\<lambda>c. c) OPEN
          (Some [''ocpp1.6''])
          (us_pending (accept (Some [''ocpp1.6'']) scenario_handshake ''open'' JSNull None
             upgrade_start)) ''ocpp1.6'')"]
  obtain pu where pu:
    "us_pending (accept (Some [''ocpp1.6'']) scenario_handshake ''open'' JSNull None upgrade_start)
       = Some pu"
    "pu_session pu = (if JSNull = JSUndefined \<or> JSNull = JSNull then JSObject [] else JSNull)"
    "(\<forall>c. sc_session ((\<lambda>c. c) c) = sc_session c)
       \<and> onConnection (\<lambda>options. options) (\<lambda>c. c) OPEN (Some [''ocpp1.6'']) (Some pu) ''ocpp1.6''
          = Inr (projr (onConnection (\<lambda>options. options) (\<lambda>c. c) OPEN (Some [''ocpp1.6''])
          (us_pending (accept (Some [''ocpp1.6'']) scenario_handshake ''open'' JSNull None
             upgrade_start)) ''ocpp1.6''))
      \<longrightarrow> sc_session (projr (onConnection (\<lambda>options. options) (\<lambda>c. c) OPEN (Some [''ocpp1.6''])
          (us_pending (accept (Some [''ocpp1.6'']) scenario_handshake ''open'' JSNull None
             upgrade_start)) ''ocpp1.6'')) = pu_session pu"
    by blast
  have created: "onConnection (\<lambda>options. options) (\<lambda>c. c) OPEN (Some [''ocpp1.6'']) (Some pu) ''ocpp1.6''
      = Inr (projr (onConnection (\<lambda>options. options) (\<lambda>c. c) OPEN (Some [''ocpp1.6''])
          (Some pu) ''ocpp1.6''))"
    by (simp add: onConnection_def)
  from pu created have "sc_session
      (projr (onConnection (\<lambda>options. options) (\<lambda>c. c) OPEN (Some [''ocpp1.6''])
         (Some pu) ''ocpp1.6'')) = JSObject []"
    by simp
  with accepted pu(1,2) created show ?thesis by auto
qed

subsection \<open>C2\<close>




section \<open>Properties of reconfigure\<close>

text \<open>
  When \<open>reconfigure\<close> throws: strict mode is switched on without any subprotocol, or the
  first strict subprotocol without a validator has a non-empty name. When it throws, the
  options in effect are the ones before the call.
\<close>

lemma fold_validators_None:
  "fold (\<lambda>v svs. svs(v_subprotocol v \<mapsto> v)) vs m p = None
     \<longleftrightarrow> m p = None \<and> p \<notin> v_subprotocol ` set vs"
  by (induction vs arbitrary: m) auto

lemma reconfigure_throws_iff:
  "fst (reconfigure standardValidators options this) \<noteq> None \<longleftrightarrow>
     (let newOpts = assign_options (srv_options this) options in
      (strict_truthy (so_strictMode newOpts) \<and> so_protocols newOpts \<in> {None, Some []})
      \<or> (\<exists>missing.
            List.find (\<lambda>p. p \<notin> validator_names standardValidators newOpts)
              (strict_protocols newOpts) = Some missing
            \<and> missing \<noteq> ''''))"
  by (auto simp add: reconfigure_def Let_def strict_truthy_def strict_protocols_def
      validator_names_def fold_validators_None image_Un
      split: if_splits sum.splits option.splits strict_mode.splits)

lemma reconfigure_throw_keeps_options:
  "fst (reconfigure standardValidators options this) = Some err
     \<Longrightarrow> srv_options (snd (reconfigure standardValidators options this)) = srv_options this"
  by (auto simp add: reconfigure_def Let_def
      split: if_splits sum.splits option.splits strict_mode.splits)

lemma reconfigure_no_protocols_throws:
  "strict_truthy (so_strictMode (assign_options (srv_options this) options))
     \<Longrightarrow> so_protocols (assign_options (srv_options this) options) \<in> {None, Some []}
     \<Longrightarrow> reconfigure standardValidators options this
         = (Some (Error ''strictMode requires at least one subprotocol''), this)"
  by (auto simp add: reconfigure_def Let_def)

subsection \<open>C5\<close>

text \<open>
  C5, at the failing input. Strict mode is requested for the subprotocol with the empty
  name, for which no validator exists, on a server with the two standard validators:
  \<open>reconfigure\<close> does not throw and makes the options effective. The find yields the empty
  string, which the test \<open>if (missingValidator)\<close> takes for "nothing missing". For the
  subprotocol \<open>ocpp1.5\<close>, equally without a validator, the same call throws.
\<close>

theorem reconfigure_empty_subprotocol_accepted:
  "fst (reconfigure scenario_validators
          \<lparr> up_protocols = Some (Some [''ocpp1.6'']),
            up_strictMode = Some (StrictProtocols ['''']),
            up_strictModeValidators = None \<rparr>
          default_server) = None
   \<and> srv_strictValidators
        (snd (reconfigure scenario_validators
          \<lparr> up_protocols = Some (Some [''ocpp1.6'']),
            up_strictMode = Some (StrictProtocols ['''']),
            up_strictModeValidators = None \<rparr>
          default_server)) '''' = None
   \<and> so_strictMode (srv_options
        (snd (reconfigure scenario_validators
          \<lparr> up_protocols = Some (Some [''ocpp1.6'']),
            up_strictMode = Some (StrictProtocols ['''']),
            up_strictModeValidators = None \<rparr>
          default_server))) = StrictProtocols ['''']
   \<and> fst (reconfigure scenario_validators
          \<lparr> up_protocols = Some (Some [''ocpp1.6'']),
            up_strictMode = Some (StrictProtocols [''ocpp1.5'']),
            up_strictModeValidators = None \<rparr>
          default_server)
       = Some (Error (''Missing strictMode validator for subprotocol ''
                        @ [CHR 0x27] @ ''ocpp1.5'' @ [CHR 0x27]))"
  by (simp add: reconfigure_def assign_options_def default_server_def scenario_validators_def
      strict_truthy_def Let_def)

section \<open>Properties of the client\<close>

subsection \<open>Effects of _beginConnect and _tryReconnect\<close>

lemma beginConnect_Fails:
  "beginConnect (Fails err) c =
     (Inl err,
      c\<lparr> cl_connectPromise := Some (Suc (cl_sockets c)),
         cl_sockets := Suc (cl_sockets c),
         cl_authorization := authorization_header (cl_identity c) (opt_password (cl_options c)),
         cl_state := CONNECTING,
         cl_emitted := cl_emitted c @ [EvConnecting (cl_protocolOptions c)] \<rparr>)"
  by (simp add: beginConnect_def)

lemma beginConnect_frame:
  "cl_options (snd (beginConnect outcome c)) = cl_options c"
  "cl_delays (snd (beginConnect outcome c)) = cl_delays c"
  "cl_sockets (snd (beginConnect outcome c)) = Suc (cl_sockets c)"
  "cl_close_calls (snd (beginConnect outcome c)) = cl_close_calls c"
  by (cases outcome; simp add: beginConnect_def Let_def)+

lemma tryReconnect_delays_mono: "cl_delays c \<le> cl_delays (tryReconnect script c)"
proof (induction script arbitrary: c)
  case Nil
  show ?case by (simp add: Let_def close_call_def)
next
  case (Cons step script)
  show ?case
  proof (cases step)
    case DelayAborted
    then show ?thesis by (simp add: Let_def close_call_def)
  next
    case (Attempt outcome)
    show ?thesis
    proof (cases outcome)
      case (Opens p)
      then show ?thesis using Attempt
        by (simp add: Let_def close_call_def beginConnect_def)
    next
      case (Fails err)
      let ?c2 = "c\<lparr> cl_reconnectAttempt := Suc (cl_reconnectAttempt c),
                     cl_state := CONNECTING, cl_delays := Suc (cl_delays c) \<rparr>"
      have "cl_delays (snd (beginConnect (Fails err) ?c2)) \<le>
          cl_delays (tryReconnect script (snd (beginConnect (Fails err) ?c2)))"
        by (rule Cons.IH)
      then show ?thesis using Attempt Fails
        by (simp add: Let_def close_call_def beginConnect_Fails)
    qed
  qed
qed

lemma tryReconnect_schedules:
  assumes "enat (Suc (cl_reconnectAttempt c)) \<le> opt_maxReconnects (cl_options c)"
  shows "Suc (cl_delays c) \<le> cl_delays (tryReconnect script c)"
proof (cases script)
  case Nil
  with assms show ?thesis by (simp add: Let_def not_less [symmetric])
next
  case (Cons step rest)
  show ?thesis
  proof (cases step)
    case DelayAborted
    with assms Cons show ?thesis by (simp add: Let_def not_less [symmetric])
  next
    case (Attempt outcome)
    show ?thesis
    proof (cases outcome)
      case (Opens p)
      with assms Cons Attempt show ?thesis
        by (simp add: Let_def not_less [symmetric] beginConnect_def)
    next
      case (Fails err)
      let ?c2 = "c\<lparr> cl_reconnectAttempt := Suc (cl_reconnectAttempt c),
                     cl_state := CONNECTING, cl_delays := Suc (cl_delays c) \<rparr>"
      have "cl_delays (snd (beginConnect (Fails err) ?c2)) \<le>
          cl_delays (tryReconnect rest (snd (beginConnect (Fails err) ?c2)))"
        by (rule tryReconnect_delays_mono)
      with assms Cons Attempt Fails show ?thesis
        by (simp add: Let_def not_less [symmetric] beginConnect_Fails close_call_def)
    qed
  qed
qed

lemma tryReconnect_gives_up:
  assumes "enat (Suc (cl_reconnectAttempt c)) > opt_maxReconnects (cl_options c)"
  shows "tryReconnect script c
     = close_call 1001 ''Giving up'' (c\<lparr> cl_reconnectAttempt := Suc (cl_reconnectAttempt c) \<rparr>)"
  using assms by (cases script) (simp_all add: Let_def)

lemma connect_prelude:
  assumes "connection_url enc sp new_URL (cl_options c) = Inr url"
  shows "connect enc sp new_URL outcome c =
     (let c2 = c\<lparr> cl_protocolOptions :=
                     (case opt_protocols (cl_options c) of Some ps \<Rightarrow> ps | None \<Rightarrow> []),
                   cl_protocol := None,
                   cl_identity := opt_identity (cl_options c),
                   cl_connectionUrl := Some url \<rparr>
      in if cl_state c = CLOSED then
           (case beginConnect outcome c2 of
              (Inr result, c3) \<Rightarrow> (Resolves, c3)
            | (Inl err, c3) \<Rightarrow>
                (Rejects err,
                 c3\<lparr> cl_state := CLOSED,
                     cl_emitted := cl_emitted c3 @ [EvClose 1006 ''Abnormal Closure''] \<rparr>))
         else if cl_state c = CLOSING then
           (Rejects (Error ''Cannot connect while closing''), c2)
         else if cl_state c \<in> {OPEN, CONNECTING} then
           (Follows (cl_connectPromise c), c2)
         else (Rejects (Error ''Client in unexpected state''), c2))"
  using assms by (simp add: connect_def Let_def)

subsection \<open>C4\<close>

text \<open>
  C4 (as stated). After every failure that is not fatal another reconnect attempt would be
  scheduled. With \<open>maxReconnects = 1\<close> the first reconnect attempt fails with a connection
  error, which is not fatal; yet no second delay is started and no second websocket is
  opened: \<open>_tryReconnect\<close> gives up and calls \<open>close\<close> with code 1001.
\<close>

theorem reconnect_limit_counterexample:
  "error_message (Error ''connect ECONNREFUSED'') \<notin> set intolerableErrors
   \<and> cl_delays
        (tryReconnect [Attempt (Fails (Error ''connect ECONNREFUSED'')), Attempt (Opens ''ocpp1.6'')]
           scenario_client) = 1
   \<and> cl_sockets
        (tryReconnect [Attempt (Fails (Error ''connect ECONNREFUSED'')), Attempt (Opens ''ocpp1.6'')]
           scenario_client) = Suc (cl_sockets scenario_client)
   \<and> cl_close_calls
        (tryReconnect [Attempt (Fails (Error ''connect ECONNREFUSED'')), Attempt (Opens ''ocpp1.6'')]
           scenario_client) = [(1001, ''Giving up'')]"
  by (simp add: scenario_client_def Let_def beginConnect_def close_call_def error_message_def
      intolerableErrors_def one_enat_def)

text \<open>
  C4 (amended). For a reconnect attempt that is within \<open>maxReconnects\<close> and whose connection
  fails: if the message is one of the five fatal messages, no further delay is started and
  no further websocket is opened, whatever would follow, and the client calls \<open>close\<close> with
  code 1001 and the message as reason. For every other failure \<open>_tryReconnect\<close> runs again:
  it starts another delay if the next attempt is still within \<open>maxReconnects\<close>, and otherwise
  it starts none and calls \<open>close\<close> with code 1001 and reason \<open>Giving up\<close>.
\<close>

theorem reconnect_failure_handling:
  assumes within: "enat (Suc (cl_reconnectAttempt c)) \<le> opt_maxReconnects (cl_options c)"
  shows
  "(error_message err \<in> set intolerableErrors \<longrightarrow>
      cl_delays (tryReconnect (Attempt (Fails err) # script) c) = Suc (cl_delays c)
      \<and> cl_sockets (tryReconnect (Attempt (Fails err) # script) c) = Suc (cl_sockets c)
      \<and> cl_close_calls (tryReconnect (Attempt (Fails err) # script) c)
          = cl_close_calls c @ [(1001, error_message err)])
   \<and> (error_message err \<notin> set intolerableErrors \<longrightarrow>
      tryReconnect (Attempt (Fails err) # script) c
        = tryReconnect script
            (snd (beginConnect (Fails err)
                    (c\<lparr> cl_reconnectAttempt := Suc (cl_reconnectAttempt c),
                        cl_state := CONNECTING, cl_delays := Suc (cl_delays c) \<rparr>)))
      \<and> (enat (Suc (Suc (cl_reconnectAttempt c))) \<le> opt_maxReconnects (cl_options c) \<longrightarrow>
           Suc (Suc (cl_delays c)) \<le> cl_delays (tryReconnect (Attempt (Fails err) # script) c))
      \<and> (enat (Suc (Suc (cl_reconnectAttempt c))) > opt_maxReconnects (cl_options c) \<longrightarrow>
           cl_delays (tryReconnect (Attempt (Fails err) # script) c) = Suc (cl_delays c)
           \<and> cl_sockets (tryReconnect (Attempt (Fails err) # script) c) = Suc (cl_sockets c)
           \<and> cl_close_calls (tryReconnect (Attempt (Fails err) # script) c)
               = cl_close_calls c @ [(1001, ''Giving up'')]))"
proof -
  let ?c2 = "c\<lparr> cl_reconnectAttempt := Suc (cl_reconnectAttempt c),
                 cl_state := CONNECTING, cl_delays := Suc (cl_delays c) \<rparr>"
  let ?c3 = "snd (beginConnect (Fails err) ?c2)"
  have c3: "cl_options ?c3 = cl_options c" "cl_delays ?c3 = Suc (cl_delays c)"
    "cl_sockets ?c3 = Suc (cl_sockets c)" "cl_close_calls ?c3 = cl_close_calls c"
    "cl_reconnectAttempt ?c3 = Suc (cl_reconnectAttempt c)"
    by (simp_all add: beginConnect_Fails)
  have fatal: "cl_delays (tryReconnect (Attempt (Fails err) # script) c) = Suc (cl_delays c)
      \<and> cl_sockets (tryReconnect (Attempt (Fails err) # script) c) = Suc (cl_sockets c)
      \<and> cl_close_calls (tryReconnect (Attempt (Fails err) # script) c)
          = cl_close_calls c @ [(1001, error_message err)]"
    if "error_message err \<in> set intolerableErrors"
    using that within
    by (simp add: Let_def not_less [symmetric] beginConnect_Fails close_call_def)
  have again: "tryReconnect (Attempt (Fails err) # script) c = tryReconnect script ?c3"
    if "error_message err \<notin> set intolerableErrors"
    using that within
    by (simp add: Let_def not_less [symmetric] beginConnect_Fails)
  have more: "Suc (Suc (cl_delays c)) \<le> cl_delays (tryReconnect script ?c3)"
    if "enat (Suc (Suc (cl_reconnectAttempt c))) \<le> opt_maxReconnects (cl_options c)"
    using tryReconnect_schedules [of ?c3 script] that c3 by simp
  have stop: "tryReconnect script ?c3
      = close_call 1001 ''Giving up'' (?c3\<lparr> cl_reconnectAttempt := Suc (cl_reconnectAttempt ?c3) \<rparr>)"
    if "enat (Suc (Suc (cl_reconnectAttempt c))) > opt_maxReconnects (cl_options c)"
    using tryReconnect_gives_up [of ?c3 script] that c3 by simp
  have stopped: "cl_delays (tryReconnect script ?c3) = Suc (cl_delays c)
           \<and> cl_sockets (tryReconnect script ?c3) = Suc (cl_sockets c)
           \<and> cl_close_calls (tryReconnect script ?c3)
               = cl_close_calls c @ [(1001, ''Giving up'')]"
    if "enat (Suc (Suc (cl_reconnectAttempt c))) > opt_maxReconnects (cl_options c)"
    unfolding stop [OF that] using c3 by (simp add: close_call_def)
  show ?thesis
  proof (intro conjI impI)
    assume "error_message err \<in> set intolerableErrors"
    then show "cl_delays (tryReconnect (Attempt (Fails err) # script) c) = Suc (cl_delays c)"
      and "cl_sockets (tryReconnect (Attempt (Fails err) # script) c) = Suc (cl_sockets c)"
      and "cl_close_calls (tryReconnect (Attempt (Fails err) # script) c)
          = cl_close_calls c @ [(1001, error_message err)]"
      using fatal by simp_all
  next
    assume "error_message err \<notin> set intolerableErrors"
    then show "tryReconnect (Attempt (Fails err) # script) c = tryReconnect script ?c3"
      by (rule again)
  next
    assume n: "error_message err \<notin> set intolerableErrors"
      and "enat (Suc (Suc (cl_reconnectAttempt c))) \<le> opt_maxReconnects (cl_options c)"
    then show "Suc (Suc (cl_delays c)) \<le> cl_delays (tryReconnect (Attempt (Fails err) # script) c)"
      using more again by simp
  next
    assume n: "error_message err \<notin> set intolerableErrors"
      and g: "opt_maxReconnects (cl_options c) < enat (Suc (Suc (cl_reconnectAttempt c)))"
    from stopped [OF g] again [OF n]
    show "cl_delays (tryReconnect (Attempt (Fails err) # script) c) = Suc (cl_delays c)"
      and "cl_sockets (tryReconnect (Attempt (Fails err) # script) c) = Suc (cl_sockets c)"
      and "cl_close_calls (tryReconnect (Attempt (Fails err) # script) c)
               = cl_close_calls c @ [(1001, ''Giving up'')]"
      by simp_all
  qed
qed

text \<open>
  C4, witness: the scenario client (one reconnect allowed) with a fatal and with an ordinary
  failure, and the same client with unlimited reconnects.
\<close>

theorem reconnect_failure_handling_witness:
  "enat (Suc (cl_reconnectAttempt scenario_client)) \<le> opt_maxReconnects (cl_options scenario_client)
   \<and> error_message (Error ''Server sent no subprotocol'') \<in> set intolerableErrors
   \<and> cl_close_calls
        (tryReconnect [Attempt (Fails (Error ''Server sent no subprotocol'')), Attempt (Opens ''ocpp1.6'')]
           scenario_client)
       = cl_close_calls scenario_client @ [(1001, ''Server sent no subprotocol'')]
   \<and> cl_delays
        (tryReconnect [Attempt (Fails (Error ''Server sent no subprotocol'')), Attempt (Opens ''ocpp1.6'')]
           scenario_client)
       = Suc (cl_delays scenario_client)
   \<and> error_message (Error ''connect ECONNREFUSED'') \<notin> set intolerableErrors
   \<and> opt_maxReconnects (cl_options scenario_client)
       < enat (Suc (Suc (cl_reconnectAttempt scenario_client)))
   \<and> cl_close_calls
        (tryReconnect [Attempt (Fails (Error ''connect ECONNREFUSED''))] scenario_client)
       = cl_close_calls scenario_client @ [(1001, ''Giving up'')]
   \<and> enat (Suc (Suc (cl_reconnectAttempt scenario_client)))
       \<le> opt_maxReconnects
           (cl_options (scenario_client\<lparr> cl_options :=
              (cl_options scenario_client)\<lparr> opt_maxReconnects := \<infinity> \<rparr> \<rparr>))
   \<and> Suc (Suc (cl_delays scenario_client))
       \<le> cl_delays
           (tryReconnect [Attempt (Fails (Error ''connect ECONNREFUSED''))]
              (scenario_client\<lparr> cl_options :=
                 (cl_options scenario_client)\<lparr> opt_maxReconnects := \<infinity> \<rparr> \<rparr>))"
proof -
  let ?unbounded = "scenario_client\<lparr> cl_options :=
      (cl_options scenario_client)\<lparr> opt_maxReconnects := \<infinity> \<rparr> \<rparr>"
  have within: "enat (Suc (cl_reconnectAttempt scenario_client))
      \<le> opt_maxReconnects (cl_options scenario_client)"
    by (simp add: scenario_client_def one_enat_def)
  have within': "enat (Suc (cl_reconnectAttempt ?unbounded)) \<le> opt_maxReconnects (cl_options ?unbounded)"
    by simp
  have fatal: "error_message (Error ''Server sent no subprotocol'') \<in> set intolerableErrors"
    by (simp add: error_message_def intolerableErrors_def)
  have other: "error_message (Error ''connect ECONNREFUSED'') \<notin> set intolerableErrors"
    by (simp add: error_message_def intolerableErrors_def)
  have last: "opt_maxReconnects (cl_options scenario_client)
       < enat (Suc (Suc (cl_reconnectAttempt scenario_client)))"
    by (simp add: scenario_client_def one_enat_def)
  have more: "enat (Suc (Suc (cl_reconnectAttempt ?unbounded)))
       \<le> opt_maxReconnects (cl_options ?unbounded)"
    by simp
  note on_fatal = reconnect_failure_handling [OF within,
      where err = "Error ''Server sent no subprotocol''" and script = "[Attempt (Opens ''ocpp1.6'')]",
      THEN conjunct1, THEN mp, OF fatal]
  note on_last = reconnect_failure_handling [OF within,
      where err = "Error ''connect ECONNREFUSED''" and script = "[]",
      THEN conjunct2, THEN mp, OF other, THEN conjunct2, THEN conjunct2, THEN mp, OF last]
  note on_more = reconnect_failure_handling [OF within',
      where err = "Error ''connect ECONNREFUSED''" and script = "[]",
      THEN conjunct2, THEN mp, OF other, THEN conjunct2, THEN conjunct1, THEN mp, OF more]
  have a: "cl_close_calls
        (tryReconnect [Attempt (Fails (Error ''Server sent no subprotocol'')), Attempt (Opens ''ocpp1.6'')]
           scenario_client)
       = cl_close_calls scenario_client @ [(1001, ''Server sent no subprotocol'')]"
    using on_fatal by (simp add: error_message_def)
  have b: "cl_delays
        (tryReconnect [Attempt (Fails (Error ''Server sent no subprotocol'')), Attempt (Opens ''ocpp1.6'')]
           scenario_client)
       = Suc (cl_delays scenario_client)"
    using on_fatal by simp
  have c: "cl_close_calls
        (tryReconnect [Attempt (Fails (Error ''connect ECONNREFUSED''))] scenario_client)
       = cl_close_calls scenario_client @ [(1001, ''Giving up'')]"
    using on_last by simp
  have d: "Suc (Suc (cl_delays scenario_client))
       \<le> cl_delays (tryReconnect [Attempt (Fails (Error ''connect ECONNREFUSED''))] ?unbounded)"
    using on_more by simp
  from within fatal a b other last c more d show ?thesis
    by simp
qed


subsection \<open>C10\<close>

lemma connect_without_url:
  assumes "connection_url enc sp new_URL (cl_options c) = Inl e"
  shows "connect enc sp new_URL outcome c =
     (Rejects e,
      c\<lparr> cl_protocolOptions :=
             (case opt_protocols (cl_options c) of Some ps \<Rightarrow> ps | None \<Rightarrow> []),
           cl_protocol := None,
           cl_identity := opt_identity (cl_options c) \<rparr>)"
  using assms by (simp add: connect_def Let_def)

text \<open>
  C10 (as stated). The three behaviours would hold for every client. They do not when the
  connection URL cannot be built: \<open>connect\<close> builds the URL before it looks at the state and
  outside its \<open>try\<close>. For the scenario client whose endpoint has become \<open>h/ep\<close>, the call
  fails with the error of \<open>new URL\<close> in state \<open>OPEN\<close> (it does not return the stored promise),
  in state \<open>CLOSING\<close> (it does not throw \<open>Cannot connect while closing\<close>), and in state \<open>CLOSED\<close>
  (no \<open>close\<close> event with code 1006 is emitted).
\<close>

theorem connect_unparsable_endpoint_counterexample:
  "cl_state scenario_client_moved = OPEN
   \<and> fst (connect Inr Inr scenario_new_URL (Opens ''ocpp1.6'') scenario_client_moved)
       = Rejects (TypeError ''Invalid URL'')
   \<and> fst (connect Inr Inr scenario_new_URL (Opens ''ocpp1.6'') scenario_client_moved)
       \<noteq> Follows (cl_connectPromise scenario_client_moved)
   \<and> fst (connect Inr Inr scenario_new_URL (Opens ''ocpp1.6'')
            (scenario_client_moved\<lparr> cl_state := CLOSING \<rparr>))
       = Rejects (TypeError ''Invalid URL'')
   \<and> fst (connect Inr Inr scenario_new_URL (Opens ''ocpp1.6'')
            (scenario_client_moved\<lparr> cl_state := CLOSING \<rparr>))
       \<noteq> Rejects (Error ''Cannot connect while closing'')
   \<and> fst (connect Inr Inr scenario_new_URL (Fails (Error ''connect ECONNREFUSED''))
            (scenario_client_moved\<lparr> cl_state := CLOSED \<rparr>))
       = Rejects (TypeError ''Invalid URL'')
   \<and> cl_emitted (snd (connect Inr Inr scenario_new_URL (Fails (Error ''connect ECONNREFUSED''))
                         (scenario_client_moved\<lparr> cl_state := CLOSED \<rparr>))) = []"
  by (simp add: connect_def connection_url_def scenario_new_URL_def scenario_client_moved_def
      scenario_client_def Let_def)

text \<open>
  C10 (amended). \<open>connect\<close> first builds the connection URL. If that throws, \<open>connect\<close> fails
  with this error in every state; it opens no websocket, creates no promise, emits nothing
  and leaves the state. Otherwise: in state \<open>OPEN\<close> or \<open>CONNECTING\<close> the call returns the
  stored connect promise; it opens no websocket, creates no promise, emits nothing and
  leaves the state. In state \<open>CLOSING\<close> it throws \<open>Cannot connect while closing\<close>. In state
  \<open>CLOSED\<close>, when the connection attempt fails, the state is \<open>CLOSED\<close> again, the error of the
  attempt is the error of \<open>connect\<close>, and the last event emitted is \<open>close\<close> with code 1006
  and reason \<open>Abnormal Closure\<close>, after the \<open>connecting\<close> event of the attempt.
\<close>

theorem connect_state_discipline:
  "(connection_url enc sp new_URL (cl_options c) = Inl e \<longrightarrow>
      fst (connect enc sp new_URL outcome c) = Rejects e
      \<and> cl_state (snd (connect enc sp new_URL outcome c)) = cl_state c
      \<and> cl_sockets (snd (connect enc sp new_URL outcome c)) = cl_sockets c
      \<and> cl_connectPromise (snd (connect enc sp new_URL outcome c)) = cl_connectPromise c
      \<and> cl_emitted (snd (connect enc sp new_URL outcome c)) = cl_emitted c)
   \<and> (connection_url enc sp new_URL (cl_options c) = Inr url \<longrightarrow>
      (cl_state c = OPEN \<or> cl_state c = CONNECTING \<longrightarrow>
         fst (connect enc sp new_URL outcome c) = Follows (cl_connectPromise c)
         \<and> cl_sockets (snd (connect enc sp new_URL outcome c)) = cl_sockets c
         \<and> cl_connectPromise (snd (connect enc sp new_URL outcome c)) = cl_connectPromise c
         \<and> cl_state (snd (connect enc sp new_URL outcome c)) = cl_state c
         \<and> cl_emitted (snd (connect enc sp new_URL outcome c)) = cl_emitted c)
      \<and> (cl_state c = CLOSING \<longrightarrow>
         fst (connect enc sp new_URL outcome c) = Rejects (Error ''Cannot connect while closing'')
         \<and> cl_sockets (snd (connect enc sp new_URL outcome c)) = cl_sockets c
         \<and> cl_state (snd (connect enc sp new_URL outcome c)) = CLOSING)
      \<and> (cl_state c = CLOSED \<longrightarrow>
         fst (connect enc sp new_URL (Fails err) c) = Rejects err
         \<and> cl_state (snd (connect enc sp new_URL (Fails err) c)) = CLOSED
         \<and> cl_sockets (snd (connect enc sp new_URL (Fails err) c)) = Suc (cl_sockets c)
         \<and> cl_emitted (snd (connect enc sp new_URL (Fails err) c))
             = cl_emitted c
               @ [EvConnecting (case opt_protocols (cl_options c) of Some ps \<Rightarrow> ps | None \<Rightarrow> []),
                  EvClose 1006 ''Abnormal Closure'']))"
proof (intro conjI impI)
  assume "connection_url enc sp new_URL (cl_options c) = Inl e"
  then show "fst (connect enc sp new_URL outcome c) = Rejects e"
    and "cl_state (snd (connect enc sp new_URL outcome c)) = cl_state c"
    and "cl_sockets (snd (connect enc sp new_URL outcome c)) = cl_sockets c"
    and "cl_connectPromise (snd (connect enc sp new_URL outcome c)) = cl_connectPromise c"
    and "cl_emitted (snd (connect enc sp new_URL outcome c)) = cl_emitted c"
    by (simp_all add: connect_without_url)
next
  assume url: "connection_url enc sp new_URL (cl_options c) = Inr url"
    and "cl_state c = OPEN \<or> cl_state c = CONNECTING"
  then show "fst (connect enc sp new_URL outcome c) = Follows (cl_connectPromise c)"
    and "cl_sockets (snd (connect enc sp new_URL outcome c)) = cl_sockets c"
    and "cl_connectPromise (snd (connect enc sp new_URL outcome c)) = cl_connectPromise c"
    and "cl_state (snd (connect enc sp new_URL outcome c)) = cl_state c"
    and "cl_emitted (snd (connect enc sp new_URL outcome c)) = cl_emitted c"
    unfolding connect_prelude [OF url] by (auto simp add: Let_def)
next
  assume url: "connection_url enc sp new_URL (cl_options c) = Inr url"
    and "cl_state c = CLOSING"
  then show "fst (connect enc sp new_URL outcome c) = Rejects (Error ''Cannot connect while closing'')"
    and "cl_sockets (snd (connect enc sp new_URL outcome c)) = cl_sockets c"
    and "cl_state (snd (connect enc sp new_URL outcome c)) = CLOSING"
    unfolding connect_prelude [OF url] by (simp_all add: Let_def)
next
  assume url: "connection_url enc sp new_URL (cl_options c) = Inr url"
    and "cl_state c = CLOSED"
  then show "fst (connect enc sp new_URL (Fails err) c) = Rejects err"
    and "cl_state (snd (connect enc sp new_URL (Fails err) c)) = CLOSED"
    and "cl_sockets (snd (connect enc sp new_URL (Fails err) c)) = Suc (cl_sockets c)"
    and "cl_emitted (snd (connect enc sp new_URL (Fails err) c))
          = cl_emitted c
            @ [EvConnecting (case opt_protocols (cl_options c) of Some ps \<Rightarrow> ps | None \<Rightarrow> []),
               EvClose 1006 ''Abnormal Closure'']"
    unfolding connect_prelude [OF url] by (simp_all add: Let_def beginConnect_Fails)
qed

text \<open>
  C10, witness: the scenario client in the states \<open>OPEN\<close>, \<open>CLOSING\<close> and \<open>CLOSED\<close>, and the
  scenario client whose endpoint does not parse.
\<close>

theorem connect_state_discipline_witness:
  "connection_url Inr Inr scenario_new_URL (cl_options scenario_client) = Inr ''ws://h/ep/dev1''
   \<and> cl_state scenario_client = OPEN
   \<and> fst (connect Inr Inr scenario_new_URL (Opens ''ocpp1.6'') scenario_client)
       = Follows (cl_connectPromise scenario_client)
   \<and> cl_sockets (snd (connect Inr Inr scenario_new_URL (Opens ''ocpp1.6'') scenario_client))
       = cl_sockets scenario_client
   \<and> cl_state (scenario_client\<lparr> cl_state := CLOSING \<rparr>) = CLOSING
   \<and> fst (connect Inr Inr scenario_new_URL (Opens ''ocpp1.6'')
            (scenario_client\<lparr> cl_state := CLOSING \<rparr>))
       = Rejects (Error ''Cannot connect while closing'')
   \<and> cl_state (scenario_client\<lparr> cl_state := CLOSED \<rparr>) = CLOSED
   \<and> fst (connect Inr Inr scenario_new_URL (Fails (Error ''connect ECONNREFUSED''))
            (scenario_client\<lparr> cl_state := CLOSED \<rparr>))
       = Rejects (Error ''connect ECONNREFUSED'')
   \<and> cl_state (snd (connect Inr Inr scenario_new_URL (Fails (Error ''connect ECONNREFUSED''))
                       (scenario_client\<lparr> cl_state := CLOSED \<rparr>))) = CLOSED
   \<and> cl_emitted (snd (connect Inr Inr scenario_new_URL (Fails (Error ''connect ECONNREFUSED''))
                         (scenario_client\<lparr> cl_state := CLOSED \<rparr>)))
       = [EvConnecting [''ocpp1.6''], EvClose 1006 ''Abnormal Closure'']
   \<and> connection_url Inr Inr scenario_new_URL (cl_options scenario_client_moved)
       = Inl (TypeError ''Invalid URL'')
   \<and> fst (connect Inr Inr scenario_new_URL (Opens ''ocpp1.6'') scenario_client_moved)
       = Rejects (TypeError ''Invalid URL'')
   \<and> cl_sockets (snd (connect Inr Inr scenario_new_URL (Opens ''ocpp1.6'') scenario_client_moved))
       = cl_sockets scenario_client_moved"
proof -
  have url: "connection_url Inr Inr scenario_new_URL (cl_options scenario_client)
      = Inr ''ws://h/ep/dev1''"
    by (simp add: connection_url_def scenario_client_def scenario_new_URL_def)
  have url_closing:
    "connection_url Inr Inr scenario_new_URL (cl_options (scenario_client\<lparr> cl_state := CLOSING \<rparr>))
      = Inr ''ws://h/ep/dev1''"
    using url by simp
  have url_closed:
    "connection_url Inr Inr scenario_new_URL (cl_options (scenario_client\<lparr> cl_state := CLOSED \<rparr>))
      = Inr ''ws://h/ep/dev1''"
    using url by simp
  have no_url: "connection_url Inr Inr scenario_new_URL (cl_options scenario_client_moved)
      = Inl (TypeError ''Invalid URL'')"
    by (simp add: connection_url_def scenario_client_moved_def scenario_client_def
        scenario_new_URL_def)
  have is_open: "cl_state scenario_client = OPEN"
    by (simp add: scenario_client_def)
  have is_closing: "cl_state (scenario_client\<lparr> cl_state := CLOSING \<rparr>) = CLOSING"
    and is_closed: "cl_state (scenario_client\<lparr> cl_state := CLOSED \<rparr>) = CLOSED"
    by simp_all
  note when_open = connect_state_discipline
      [where c = scenario_client and enc = Inr and sp = Inr and new_URL = scenario_new_URL
        and url = "''ws://h/ep/dev1''" and e = "TypeError ''Invalid URL''"
        and outcome = "Opens ''ocpp1.6''" and err = "Error ''connect ECONNREFUSED''",
      THEN conjunct2, THEN mp, OF url, THEN conjunct1, THEN mp, OF disjI1, OF is_open]
  note when_closing = connect_state_discipline
      [where c = "scenario_client\<lparr> cl_state := CLOSING \<rparr>" and enc = Inr and sp = Inr
        and new_URL = scenario_new_URL
        and url = "''ws://h/ep/dev1''" and e = "TypeError ''Invalid URL''"
        and outcome = "Opens ''ocpp1.6''" and err = "Error ''connect ECONNREFUSED''",
      THEN conjunct2, THEN mp, OF url_closing, THEN conjunct2, THEN conjunct1, THEN mp,
      OF is_closing]
  note when_closed = connect_state_discipline
      [where c = "scenario_client\<lparr> cl_state := CLOSED \<rparr>" and enc = Inr and sp = Inr
        and new_URL = scenario_new_URL
        and url = "''ws://h/ep/dev1''" and e = "TypeError ''Invalid URL''"
        and outcome = "Opens ''ocpp1.6''" and err = "Error ''connect ECONNREFUSED''",
      THEN conjunct2, THEN mp, OF url_closed, THEN conjunct2, THEN conjunct2, THEN mp,
      OF is_closed]
  note when_no_url = connect_state_discipline
      [where c = scenario_client_moved and enc = Inr and sp = Inr and new_URL = scenario_new_URL
        and url = "''ws://h/ep/dev1''" and e = "TypeError ''Invalid URL''"
        and outcome = "Opens ''ocpp1.6''" and err = "Error ''connect ECONNREFUSED''",
      THEN conjunct1, THEN mp, OF no_url]
  have emitted: "cl_emitted (snd (connect Inr Inr scenario_new_URL (Fails (Error ''connect ECONNREFUSED''))
                         (scenario_client\<lparr> cl_state := CLOSED \<rparr>)))
       = [EvConnecting [''ocpp1.6''], EvClose 1006 ''Abnormal Closure'']"
    using when_closed by (simp add: scenario_client_def)
  from url is_open when_open is_closing when_closing is_closed when_closed emitted no_url
    when_no_url
  show ?thesis by simp
qed

end
